theory Spec2Isabelle
  imports Main
begin

section \<open>Python values and library functions used by havagbot.py\<close>

text \<open>
  The exceptions the program can raise. \<open>KeyError\<close> carries the missing key as
  Python's \<open>KeyError\<close> does. The spec's \<open>NoConnectionFound\<close> is the
  \<open>ValueError\<close> that \<open>min\<close> raises on an empty sequence. \<open>ReadError\<close>
  stands for an exception that \<open>cp.read\<close> raises on a file it refuses
  (\<open>MissingSectionHeaderError\<close>, \<open>DuplicateSectionError\<close>,
  \<open>DuplicateOptionError\<close>, \<open>ParsingError\<close>, \<open>UnicodeDecodeError\<close>), and
  \<open>GetError\<close> for one that the parser raises when it is asked for the value of a key
  that is there (the \<open>InterpolationError\<close>s); both carry the name of the exception's
  class. The code has no class \<open>ConfigError\<close>: whatever \<open>read_config\<close> raises
  is one of these.
\<close>

datatype error = KeyError string | ValueError | TypeError | IndexError | RemoteServiceError
  | ReadError string | GetError string

subsection \<open>Characters and decimal numbers\<close>

text \<open>A \<open>char\<close> is a code point below 256; the decimal digits among them are 0 to 9.\<close>

definition is_digit :: "char \<Rightarrow> bool" where
  "is_digit c = (let n = (of_char c :: nat) in 48 \<le> n \<and> n \<le> 57)"

definition digit_of :: "char \<Rightarrow> nat" where
  "digit_of c = (of_char c :: nat) - 48"

definition digit_char :: "nat \<Rightarrow> char" where
  "digit_char n = ''0123456789'' ! n"

text \<open>
  The whitespace that \<open>int\<close> skips around a number: tab, line feed, vertical tab,
  form feed, carriage return and space, and of the code points from 127 on those that
  are Unicode whitespace, which below 256 are U+0085 and U+00A0. The separators 28 to 31
  are not skipped.
\<close>

definition is_space :: "char \<Rightarrow> bool" where
  "is_space c =
     (let n = (of_char c :: nat) in (9 \<le> n \<and> n \<le> 13) \<or> n = 32 \<or> n = 133 \<or> n = 160)"

text \<open>\<open>str(n)\<close> for an integer: decimal digits, a minus sign when negative.\<close>

fun digits :: "nat \<Rightarrow> string" where
  "digits n = (if n < 10 then [digit_char n] else digits (n div 10) @ [digit_char (n mod 10)])"

declare digits.simps [simp del]

definition str_int :: "int \<Rightarrow> string" where
  "str_int i = (if i < 0 then CHR ''-'' # digits (nat (- i)) else digits (nat i))"

text \<open>\<open>s.split(",")\<close>: one entry per comma plus one, empty entries kept.\<close>

fun split_comma :: "string \<Rightarrow> string list" where
  "split_comma [] = [[]]"
| "split_comma (c # cs) =
     (if c = CHR '','' then [] # split_comma cs
      else (case split_comma cs of [] \<Rightarrow> [[c]] | w # ws \<Rightarrow> (c # w) # ws))"

text \<open>
  \<open>int(s)\<close> in base 10 (Python 3.6 and later, code points below 256): surrounding
  whitespace is dropped, one sign is allowed, then digits with single underscores between
  them. Anything else raises \<open>ValueError\<close>. Integers are unbounded; the bound on the
  number of digits that \<open>sys.set_int_max_str_digits\<close> sets from Python 3.11 on is taken
  as switched off, for \<open>int\<close> and for \<open>str\<close> alike.
\<close>

definition strip :: "string \<Rightarrow> string" where
  "strip s = rev (dropWhile is_space (rev (dropWhile is_space s)))"

fun int_digits :: "nat \<Rightarrow> string \<Rightarrow> nat option" where
  "int_digits acc [] = Some acc"
| "int_digits acc [c] = (if is_digit c then Some (10 * acc + digit_of c) else None)"
| "int_digits acc (c # c' # cs) =
     (if c = CHR ''_'' then
        (if is_digit c' then int_digits (10 * acc + digit_of c') cs else None)
      else if is_digit c then int_digits (10 * acc + digit_of c) (c' # cs)
      else None)"

definition int_unsigned :: "string \<Rightarrow> nat option" where
  "int_unsigned u =
     (case u of [] \<Rightarrow> None
      | c # cs \<Rightarrow> if is_digit c then int_digits (digit_of c) cs else None)"

definition py_int :: "string \<Rightarrow> error + int" where
  "py_int s =
     (case strip s of
        [] \<Rightarrow> Inl ValueError
      | c # cs \<Rightarrow>
          if c = CHR ''-'' then
            (case int_unsigned cs of None \<Rightarrow> Inl ValueError | Some n \<Rightarrow> Inr (- int n))
          else if c = CHR ''+'' then
            (case int_unsigned cs of None \<Rightarrow> Inl ValueError | Some n \<Rightarrow> Inr (int n))
          else
            (case int_unsigned (c # cs) of None \<Rightarrow> Inl ValueError | Some n \<Rightarrow> Inr (int n)))"

subsection \<open>datetime and timedelta\<close>

record datetime =
  year :: int
  month :: int
  day :: int
  hour :: int
  minute :: int
  second :: int
  microsecond :: int

text \<open>
  A \<open>timedelta\<close> is kept normalised by its constructor:
  \<open>0 \<le> seconds < 86400\<close> and \<open>0 \<le> microseconds < 1000000\<close>, the sign sits in
  \<open>days\<close> alone.
\<close>

record timedelta =
  days :: int
  seconds :: int
  microseconds :: int

definition timedelta_new :: "int \<Rightarrow> int \<Rightarrow> int \<Rightarrow> timedelta" where
  "timedelta_new d s us =
     (let total = (d * 86400 + s) * 1000000 + us
      in \<lparr>days = total div 86400000000,
          seconds = (total mod 86400000000) div 1000000,
          microseconds = total mod 1000000\<rparr>)"

definition is_leap :: "int \<Rightarrow> bool" where
  "is_leap y = (y mod 4 = 0 \<and> (y mod 100 \<noteq> 0 \<or> y mod 400 = 0))"

definition days_in_month :: "int \<Rightarrow> int \<Rightarrow> int" where
  "days_in_month y m =
     (if m = 2 then (if is_leap y then 29 else 28)
      else if m = 4 \<or> m = 6 \<or> m = 9 \<or> m = 11 then 30 else 31)"

definition days_before_year :: "int \<Rightarrow> int" where
  "days_before_year y = (let p = y - 1 in p * 365 + p div 4 - p div 100 + p div 400)"

definition days_before_month :: "int \<Rightarrow> int \<Rightarrow> int" where
  "days_before_month y m =
     [0, 31, 59, 90, 120, 151, 181, 212, 243, 273, 304, 334] ! nat (m - 1)
       + (if 2 < m \<and> is_leap y then 1 else 0)"

definition toordinal :: "datetime \<Rightarrow> int" where
  "toordinal t = days_before_year (year t) + days_before_month (year t) (month t) + day t"

definition day_seconds :: "datetime \<Rightarrow> int" where
  "day_seconds t = second t + minute t * 60 + hour t * 3600"

text \<open>\<open>a - b\<close> on two datetimes.\<close>

definition datetime_sub :: "datetime \<Rightarrow> datetime \<Rightarrow> timedelta" where
  "datetime_sub a b =
     timedelta_new (toordinal a - toordinal b) (day_seconds a - day_seconds b)
       (microsecond a - microsecond b)"

text \<open>The \<open>datetime\<close> constructor checks every field's range.\<close>

definition datetime_new :: "int \<Rightarrow> int \<Rightarrow> int \<Rightarrow> int \<Rightarrow> int \<Rightarrow> int \<Rightarrow> int \<Rightarrow> error + datetime" where
  "datetime_new y mo d h mi s us =
     (if 1 \<le> y \<and> y \<le> 9999 \<and> 1 \<le> mo \<and> mo \<le> 12 \<and> 1 \<le> d \<and> d \<le> days_in_month y mo
         \<and> 0 \<le> h \<and> h \<le> 23 \<and> 0 \<le> mi \<and> mi \<le> 59 \<and> 0 \<le> s \<and> s \<le> 59
         \<and> 0 \<le> us \<and> us \<le> 999999
      then Inr \<lparr>year = y, month = mo, day = d, hour = h, minute = mi, second = s,
                microsecond = us\<rparr>
      else Inl ValueError)"

text \<open>
  \<open>datetime.strptime(s, "%Y.%m.%d.%H:%M:%S")\<close> on text of code points below 256. The library matches
  the regular expression
  \<^verbatim>\<open>(\d\d\d\d)\.(1[0-2]|0[1-9]|[1-9])\.(3[0-1]|[1-2]\d|0[1-9]|[1-9]| [1-9])\.(2[0-3]|[0-1]\d|\d):([0-5]\d|\d):(6[0-1]|[0-5]\d|\d)\<close>
  at the start of the text, refuses text that goes on after the match, and hands the six
  numbers to the \<open>datetime\<close> constructor. Every field is followed by a character
  that is no digit or by the end, so a field matches exactly when its whole run of digits
  is one of the alternatives: one or two digits with the value in range.
\<close>

definition num :: "string \<Rightarrow> int" where
  "num ds = int (foldl (\<lambda>a c. 10 * a + digit_of c) 0 ds)"

definition field_ok :: "int \<Rightarrow> int \<Rightarrow> string \<Rightarrow> bool" where
  "field_ok lo hi ds = ((length ds = 1 \<or> length ds = 2) \<and> lo \<le> num ds \<and> num ds \<le> hi)"

definition lit :: "char \<Rightarrow> string \<Rightarrow> string option" where
  "lit c s = (case s of [] \<Rightarrow> None | x # xs \<Rightarrow> if x = c then Some xs else None)"

text \<open>The day field: the digit alternatives, or a space and one digit from 1 to 9.\<close>

definition day_field :: "string \<Rightarrow> (int \<times> string) option" where
  "day_field s =
     (case s of
        [] \<Rightarrow> None
      | c # cs \<Rightarrow>
          if c = CHR '' '' then
            (case cs of
               [] \<Rightarrow> None
             | x # xs \<Rightarrow> if is_digit x \<and> x \<noteq> CHR ''0'' then Some (num [x], xs) else None)
          else
            (let ds = takeWhile is_digit s in
             if field_ok 1 31 ds then Some (num ds, dropWhile is_digit s) else None))"

definition num_field :: "int \<Rightarrow> int \<Rightarrow> string \<Rightarrow> (int \<times> string) option" where
  "num_field lo hi s =
     (let ds = takeWhile is_digit s in
      if field_ok lo hi ds then Some (num ds, dropWhile is_digit s) else None)"

definition year_field :: "string \<Rightarrow> (int \<times> string) option" where
  "year_field s =
     (let ds = take 4 s in
      if length ds = 4 \<and> list_all is_digit ds then Some (num ds, drop 4 s) else None)"

text \<open>
  The parser state is the list of numbers read so far and the text still to be read;
  \<open>None\<close> once the text has failed to match.
\<close>

type_synonym parse_state = "(int list \<times> string) option"

definition field_then :: "(string \<Rightarrow> (int \<times> string) option) \<Rightarrow> parse_state \<Rightarrow> parse_state" where
  "field_then p st =
     (case st of None \<Rightarrow> None
      | Some (vs, s) \<Rightarrow> (case p s of None \<Rightarrow> None | Some (v, r) \<Rightarrow> Some (vs @ [v], r)))"

definition lit_then :: "char \<Rightarrow> parse_state \<Rightarrow> parse_state" where
  "lit_then c st =
     (case st of None \<Rightarrow> None
      | Some (vs, s) \<Rightarrow> (case lit c s of None \<Rightarrow> None | Some r \<Rightarrow> Some (vs, r)))"

definition parse_fields :: "string \<Rightarrow> parse_state" where
  "parse_fields s =
     field_then (num_field 0 61) (lit_then CHR '':''
      (field_then (num_field 0 59) (lit_then CHR '':''
       (field_then (num_field 0 23) (lit_then CHR ''.''
        (field_then day_field (lit_then CHR ''.''
         (field_then (num_field 1 12) (lit_then CHR ''.''
          (field_then year_field (Some ([], s))))))))))))"

definition strptime :: "string \<Rightarrow> error + datetime" where
  "strptime s =
     (case parse_fields s of
        None \<Rightarrow> Inl ValueError
      | Some (vs, r) \<Rightarrow>
          if r \<noteq> [] then Inl ValueError
          else datetime_new (vs ! 0) (vs ! 1) (vs ! 2) (vs ! 3) (vs ! 4) (vs ! 5) 0)"

text \<open>\<open>t.strftime("%H:%M")\<close>: both numbers zero-padded to two digits.\<close>

definition two_digits :: "int \<Rightarrow> string" where
  "two_digits n = [digit_char (nat (n div 10)), digit_char (nat (n mod 10))]"

definition strftime_HM :: "datetime \<Rightarrow> string" where
  "strftime_HM t = two_digits (hour t) @ '':'' @ two_digits (minute t)"

definition divmod :: "int \<Rightarrow> int \<Rightarrow> int \<times> int" where
  "divmod a b = (a div b, a mod b)"

section \<open>The program\<close>

subsection \<open>read_config\<close>

text \<open>
  \<open>configparser\<close> is a library; the model takes what it does as its input. Reading
  the file either raises, which is the name of the exception's class, or leaves a parser.
  Of the parser only the lookups count: \<open>cp[section]\<close> finds the section or raises
  \<open>KeyError\<close> with its name (\<open>None\<close>: the section is absent), and
  \<open>section[key]\<close> raises \<open>KeyError\<close> with the key's name (\<open>None\<close>: the
  key is absent), or raises while it interpolates the value (the name of that exception's
  class), or gives the value. A file that does not exist is read without an error and
  leaves a parser with no section.
\<close>

type_synonym section_proxy = "string \<Rightarrow> (string + string) option"

type_synonym config_parser = "string \<Rightarrow> section_proxy option"

type_synonym read_outcome = "string + config_parser"

definition cp_read :: "read_outcome \<Rightarrow> error + config_parser" where
  "cp_read r = (case r of Inl cls \<Rightarrow> Inl (ReadError cls) | Inr cp \<Rightarrow> Inr cp)"

definition get_section :: "config_parser \<Rightarrow> string \<Rightarrow> error + section_proxy" where
  "get_section cp name = (case cp name of None \<Rightarrow> Inl (KeyError name) | Some sec \<Rightarrow> Inr sec)"

definition get_key :: "section_proxy \<Rightarrow> string \<Rightarrow> error + string" where
  "get_key sec name =
     (case sec name of
        None \<Rightarrow> Inl (KeyError name)
      | Some (Inl cls) \<Rightarrow> Inl (GetError cls)
      | Some (Inr v) \<Rightarrow> Inr v)"

definition bind :: "error + 'a \<Rightarrow> ('a \<Rightarrow> error + 'b) \<Rightarrow> error + 'b" where
  "bind r f = (case r of Inl e \<Rightarrow> Inl e | Inr x \<Rightarrow> f x)"

text \<open>The comprehension \<open>[int(id) for id in ...]\<close>: the first failure ends it.\<close>

fun ints_of :: "string list \<Rightarrow> error + int list" where
  "ints_of [] = Inr []"
| "ints_of (x # xs) =
     (case py_int x of Inl e \<Rightarrow> Inl e
      | Inr i \<Rightarrow> (case ints_of xs of Inl e \<Rightarrow> Inl e | Inr is \<Rightarrow> Inr (i # is)))"

record config =
  cfg_token :: string
  cfg_home :: string
  cfg_direction_home :: "string list"
  cfg_workplace :: string
  cfg_direction_workplace :: "string list"
  cfg_ids :: "int list"

definition read_config :: "read_outcome \<Rightarrow> error + config" where
  "read_config r =
     bind (cp_read r) (\<lambda>cp.
     bind (get_section cp ''AUTHENTICATION'') (\<lambda>auth.
     bind (get_key auth ''token'') (\<lambda>token.
     bind (get_section cp ''AUTHENTICATION'') (\<lambda>auth'.
     bind (get_key auth' ''allowed_ids'') (\<lambda>allowed.
     bind (ints_of (split_comma allowed)) (\<lambda>ids.
     bind (get_section cp ''LOCATIONS'') (\<lambda>locations.
     bind (get_key locations ''workplace'') (\<lambda>workplace.
     bind (get_key locations ''direction_workplace'') (\<lambda>direction_workplace.
     bind (get_key locations ''home'') (\<lambda>home.
     bind (get_key locations ''direction_home'') (\<lambda>direction_home.
       Inr \<lparr>cfg_token = token, cfg_home = home,
            cfg_direction_home = split_comma direction_home,
            cfg_workplace = workplace,
            cfg_direction_workplace = split_comma direction_workplace,
            cfg_ids = ids\<rparr>)))))))))))"

subsection \<open>The bot's state and surroundings\<close>

text \<open>
  \<open>HavagBot\<close> as \<open>main\<close> builds it: both directions are the lists that
  \<open>read_config\<close> returns; \<open>allowed_ids\<close> is \<open>None\<close> when the
  constructor's default is taken.
\<close>

record havagbot =
  home_address :: string
  direction_home :: "string list"
  workplace :: string
  direction_workplace :: "string list"
  allowed_ids :: "int list option"

text \<open>A record of the remote answer: \<open>tram, destination, time, *rest\<close>.\<close>

record departure =
  dep_tram :: string
  dep_destination :: string
  dep_time :: string
  dep_rest :: "string list"

text \<open>
  What a handler reads from outside: the clock (\<open>datetime.now()\<close>) and the remote
  call \<open>hess_prox.getDeparturesForStop\<close>, which may fail.
\<close>

record env =
  now :: datetime
  getDeparturesForStop :: "string \<Rightarrow> error + departure list"

text \<open>
  The \<open>delta\<close> entry of a connection is a pair when \<open>get_connections\<close> builds
  it; \<open>return_connection_str\<close> overwrites it with an integer or with a string.
\<close>

datatype delta_value = DeltaPair int int | DeltaInt int | DeltaStr string

record connection =
  tram :: string
  destination :: string
  time :: string
  delta :: delta_value

text \<open>
  What a handler does to the outside: messages sent (\<open>bot.sendMessage\<close>, chat and
  text) and lines written to the log. The logger's level is \<open>INFO\<close>, so a
  \<open>debug\<close> call writes nothing.
\<close>

datatype level = DEBUG | INFO | WARNING

fun level_no :: "level \<Rightarrow> nat" where
  "level_no DEBUG = 10"
| "level_no INFO = 20"
| "level_no WARNING = 30"

record world =
  sent :: "(int \<times> string) list"
  log :: "(level \<times> string) list"

definition logger_log :: "level \<Rightarrow> string \<Rightarrow> world \<Rightarrow> world" where
  "logger_log lvl msg w =
     (if level_no INFO \<le> level_no lvl then w\<lparr>log := log w @ [(lvl, msg)]\<rparr> else w)"

definition sendMessage :: "int \<Rightarrow> string \<Rightarrow> world \<Rightarrow> world" where
  "sendMessage cid txt w = w\<lparr>sent := sent w @ [(cid, txt)]\<rparr>"

text \<open>\<open>update.message\<close>: the chat's id and the names, which may be \<open>None\<close>.\<close>

record update =
  chat_id :: int
  first_name :: "string option"
  last_name :: "string option"

definition str_opt :: "string option \<Rightarrow> string" where
  "str_opt x = (case x of None \<Rightarrow> ''None'' | Some s \<Rightarrow> s)"

subsection \<open>check_id\<close>

type_synonym handler = "havagbot \<Rightarrow> env \<Rightarrow> update \<Rightarrow> world \<Rightarrow> error + world"

text \<open>
  \<open>self.allowed_ids and requesting_id in self.allowed_ids\<close>: \<open>None\<close> and the
  empty list are both false.
\<close>

definition id_allowed :: "havagbot \<Rightarrow> int \<Rightarrow> bool" where
  "id_allowed self requesting_id =
     (case allowed_ids self of
        None \<Rightarrow> False
      | Some ids \<Rightarrow> ids \<noteq> [] \<and> requesting_id \<in> set ids)"

definition warning_text :: "update \<Rightarrow> string" where
  "warning_text upd =
     ''User '' @ str_opt (first_name upd) @ '' '' @ str_opt (last_name upd)
       @ '' with id '' @ str_int (chat_id upd) @ '' not in id list''"

definition check_id :: "handler \<Rightarrow> handler" where
  "check_id func self e upd w =
     (let requesting_id = chat_id upd in
      if id_allowed self requesting_id
      then func self e upd (logger_log DEBUG ''Found ID in ID_LIST'' w)
      else Inr (logger_log WARNING (warning_text upd) w))"

subsection \<open>HavagBot.get_connections\<close>

definition make_connection :: "datetime \<Rightarrow> departure \<Rightarrow> datetime \<Rightarrow> connection" where
  "make_connection n d t =
     (let dm = divmod (seconds (datetime_sub t n)) 60
      in \<lparr>tram = dep_tram d, destination = dep_destination d, time = strftime_HM t,
          delta = DeltaPair (fst dm) (snd dm)\<rparr>)"

text \<open>
  The loop over the remote answer. Every record's time is parsed, also of those that the
  destination test drops, so one malformed time ends the whole call with
  \<open>ValueError\<close>.
\<close>

fun connections_loop ::
  "datetime \<Rightarrow> string list \<Rightarrow> departure list \<Rightarrow> connection list \<Rightarrow> error + connection list" where
  "connections_loop n direction [] connections = Inr connections"
| "connections_loop n direction (d # ds) connections =
     (case strptime (dep_time d) of
        Inl err \<Rightarrow> Inl err
      | Inr t \<Rightarrow>
          connections_loop n direction ds
            (if dep_destination d \<in> set direction
             then connections @ [make_connection n d t]
             else connections))"

definition get_connections :: "env \<Rightarrow> string \<Rightarrow> string list \<Rightarrow> error + connection list" where
  "get_connections e start direction =
     (case getDeparturesForStop e start of
        Inl err \<Rightarrow> Inl err
      | Inr deps \<Rightarrow> connections_loop (now e) direction deps [])"

subsection \<open>HavagBot.get_next_connection\<close>

text \<open>
  \<open>a < b\<close> on two \<open>delta\<close> values: pairs compare by the first component, then by
  the second; integers and strings compare among themselves; values of two kinds do not
  compare.
\<close>

fun str_lt :: "string \<Rightarrow> string \<Rightarrow> bool" where
  "str_lt [] [] = False"
| "str_lt [] (y # ys) = True"
| "str_lt (x # xs) [] = False"
| "str_lt (x # xs) (y # ys) =
     ((of_char x :: nat) < of_char y \<or> (x = y \<and> str_lt xs ys))"

fun py_lt :: "delta_value \<Rightarrow> delta_value \<Rightarrow> error + bool" where
  "py_lt (DeltaPair m1 s1) (DeltaPair m2 s2) = Inr (m1 < m2 \<or> (m1 = m2 \<and> s1 < s2))"
| "py_lt (DeltaInt a) (DeltaInt b) = Inr (a < b)"
| "py_lt (DeltaStr a) (DeltaStr b) = Inr (str_lt a b)"
| "py_lt _ _ = Inl TypeError"

text \<open>
  \<open>min(connections, key=...)\<close>: the first element is the candidate, a later one
  replaces it only when its key is strictly smaller.
\<close>

fun min_loop :: "connection \<Rightarrow> connection list \<Rightarrow> error + connection" where
  "min_loop best [] = Inr best"
| "min_loop best (c # cs) =
     (case py_lt (delta c) (delta best) of
        Inl err \<Rightarrow> Inl err
      | Inr b \<Rightarrow> min_loop (if b then c else best) cs)"

definition get_next_connection :: "connection list \<Rightarrow> error + connection" where
  "get_next_connection connections =
     (case connections of [] \<Rightarrow> Inl ValueError | c # cs \<Rightarrow> min_loop c cs)"

subsection \<open>HavagBot.return_connection_str\<close>

definition str_delta :: "delta_value \<Rightarrow> string" where
  "str_delta v =
     (case v of
        DeltaPair m s \<Rightarrow> ''('' @ str_int m @ '', '' @ str_int s @ '')''
      | DeltaInt m \<Rightarrow> str_int m
      | DeltaStr s \<Rightarrow> s)"

definition format_connection :: "connection \<Rightarrow> string" where
  "format_connection c =
     tram c @ '' -> '' @ destination c @ '' @ '' @ time c @ '' ('' @ str_delta (delta c)
       @ '' Min.)''"

text \<open>
  The function returns the text and leaves the connection changed; the model returns
  both. \<open>connection["delta"][0]\<close> raises \<open>TypeError\<close> on an integer and
  \<open>IndexError\<close> on an empty string; on any other string it gives a string, which
  \<open>< 1\<close> refuses to compare with a number.
\<close>

definition return_connection_str :: "connection \<Rightarrow> error + (string \<times> connection)" where
  "return_connection_str c =
     (case delta c of
        DeltaPair m s \<Rightarrow>
          (let c' = (if m < 1 then c\<lparr>delta := DeltaStr ''< 1''\<rparr> else c\<lparr>delta := DeltaInt m\<rparr>)
           in Inr (format_connection c', c'))
      | DeltaInt m \<Rightarrow> Inl TypeError
      | DeltaStr s \<Rightarrow> (if s = [] then Inl IndexError else Inl TypeError))"

subsection \<open>The handlers\<close>

definition start_body :: handler where
  "start_body self e upd w = Inr (sendMessage (chat_id upd) ''Hello'' w)"

text \<open>
  The body shared by \<open>home\<close> and \<open>work\<close>. \<open>get_connections\<close> is called before
  the \<open>try\<close>, so what it raises leaves the handler; inside the \<open>try\<close> only
  \<open>ValueError\<close> is caught.
\<close>

definition reply_next :: "env \<Rightarrow> string \<Rightarrow> string list \<Rightarrow> update \<Rightarrow> world \<Rightarrow> error + world" where
  "reply_next e start direction upd w =
     (case get_connections e start direction of
        Inl err \<Rightarrow> Inl err
      | Inr connections \<Rightarrow>
          (case get_next_connection connections of
             Inl err \<Rightarrow>
               (if err = ValueError
                then Inr (sendMessage (chat_id upd) ''Keine Verbindung gefunden.'' w)
                else Inl err)
           | Inr next_connection \<Rightarrow>
               (case return_connection_str next_connection of
                  Inl err \<Rightarrow> Inl err
                | Inr (msg, c') \<Rightarrow> Inr (sendMessage (chat_id upd) msg w))))"

definition home_body :: handler where
  "home_body self e upd w = reply_next e (workplace self) (direction_home self) upd w"

definition work_body :: handler where
  "work_body self e upd w = reply_next e (home_address self) (direction_workplace self) upd w"

definition start :: handler where
  "start = check_id start_body"

definition home :: handler where
  "home = check_id home_body"

definition work :: handler where
  "work = check_id work_body"

text \<open>The bot that \<open>main\<close> builds from a configuration.\<close>

definition bot_of_config :: "config \<Rightarrow> havagbot" where
  "bot_of_config c =
     \<lparr>home_address = cfg_home c, direction_home = cfg_direction_home c,
      workplace = cfg_workplace c, direction_workplace = cfg_direction_workplace c,
      allowed_ids = Some (cfg_ids c)\<rparr>"

section \<open>Notions the statements use\<close>

text \<open>
  The connection that \<open>get_connections\<close> builds from a record whose time parses.
\<close>

definition connection_of :: "datetime \<Rightarrow> departure \<Rightarrow> connection" where
  "connection_of n d = make_connection n d (projr (strptime (dep_time d)))"

text \<open>The order on pairs that \<open>min\<close> uses, as "not larger than".\<close>

fun delta_le :: "delta_value \<Rightarrow> delta_value \<Rightarrow> bool" where
  "delta_le (DeltaPair m1 s1) (DeltaPair m2 s2) = (m1 < m2 \<or> (m1 = m2 \<and> s1 \<le> s2))"
| "delta_le _ _ = False"

text \<open>A datetime as microseconds on the calendar's time line.\<close>

definition timestamp :: "datetime \<Rightarrow> int" where
  "timestamp t = (toordinal t * 86400 + day_seconds t) * 1000000 + microsecond t"

text \<open>\<open>",".join(xs)\<close>, the inverse of splitting at commas.\<close>

fun join_comma :: "string list \<Rightarrow> string" where
  "join_comma [] = []"
| "join_comma [x] = x"
| "join_comma (x # y # ys) = x @ CHR '','' # join_comma (y # ys)"

text \<open>
  A name that the parser lacks: a section, or a key of a section that is there.
\<close>

definition missing :: "config_parser \<Rightarrow> string \<Rightarrow> bool" where
  "missing cp k =
     ((k \<in> set [''AUTHENTICATION'', ''LOCATIONS''] \<and> cp k = None)
      \<or> (k \<in> set [''token'', ''allowed_ids'']
          \<and> (case cp ''AUTHENTICATION'' of None \<Rightarrow> False | Some sec \<Rightarrow> sec k = None))
      \<or> (k \<in> set [''workplace'', ''direction_workplace'', ''home'', ''direction_home'']
          \<and> (case cp ''LOCATIONS'' of None \<Rightarrow> False | Some sec \<Rightarrow> sec k = None)))"

text \<open>
  A lookup that \<open>read_config\<close> makes and on which the parser raises while
  interpolating: the class of the exception.
\<close>

definition get_raises :: "config_parser \<Rightarrow> string \<Rightarrow> bool" where
  "get_raises cp cls =
     ((\<exists>k\<in>set [''token'', ''allowed_ids''].
         case cp ''AUTHENTICATION'' of None \<Rightarrow> False | Some sec \<Rightarrow> sec k = Some (Inl cls))
      \<or> (\<exists>k\<in>set [''workplace'', ''direction_workplace'', ''home'', ''direction_home''].
         case cp ''LOCATIONS'' of None \<Rightarrow> False | Some sec \<Rightarrow> sec k = Some (Inl cls)))"

text \<open>A character that no integer literal contains.\<close>

definition non_numeric_char :: "char \<Rightarrow> bool" where
  "non_numeric_char c =
     (\<not> is_digit c \<and> \<not> is_space c \<and> c \<noteq> CHR ''+'' \<and> c \<noteq> CHR ''-'' \<and> c \<noteq> CHR ''_'')"

section \<open>The scenario of the specification\<close>

text \<open>
  The stop "Hauptbahnhof" answers with two departures, the clock stands at
  2024.01.01.10:00:00, the allow-list is \<open>[111]\<close>. Towards home the accepted
  destination is "Schkeuditz", towards work it is "Dresden", which no departure has.
\<close>

definition scenario_departures :: "departure list" where
  "scenario_departures =
     [\<lparr>dep_tram = ''3'', dep_destination = ''Schkeuditz'',
       dep_time = ''2024.01.01.10:05:00'', dep_rest = []\<rparr>,
      \<lparr>dep_tram = ''7'', dep_destination = ''Leipzig'',
       dep_time = ''2024.01.01.10:02:00'', dep_rest = []\<rparr>]"

definition scenario_now :: datetime where
  "scenario_now =
     \<lparr>year = 2024, month = 1, day = 1, hour = 10, minute = 0, second = 0, microsecond = 0\<rparr>"

definition scenario_env :: env where
  "scenario_env =
     \<lparr>now = scenario_now,
      getDeparturesForStop =
        (\<lambda>stop. if stop = ''Hauptbahnhof'' then Inr scenario_departures else Inr [])\<rparr>"

definition scenario_bot :: havagbot where
  "scenario_bot =
     \<lparr>home_address = ''Hauptbahnhof'', direction_home = [''Schkeuditz''],
      workplace = ''Hauptbahnhof'', direction_workplace = [''Dresden''],
      allowed_ids = Some [111]\<rparr>"

definition scenario_update :: "int \<Rightarrow> update" where
  "scenario_update i = \<lparr>chat_id = i, first_name = Some ''Ada'', last_name = None\<rparr>"

definition empty_world :: world where
  "empty_world = \<lparr>sent = [], log = []\<rparr>"

text \<open>
  Two more departures: one that left a minute before the clock's time, and one that leaves
  a day and five minutes after it.
\<close>

definition past_departure :: departure where
  "past_departure =
     \<lparr>dep_tram = ''3'', dep_destination = ''Schkeuditz'',
      dep_time = ''2024.01.01.09:59:00'', dep_rest = []\<rparr>"

definition next_day_departure :: departure where
  "next_day_departure =
     \<lparr>dep_tram = ''3'', dep_destination = ''Schkeuditz'',
      dep_time = ''2024.01.02.10:05:00'', dep_rest = []\<rparr>"

text \<open>
  An answer of the stop with three departures towards "Schkeuditz": tram 3 in five
  minutes, tram 9 in a day and one minute, and tram 5 a minute ago.
\<close>

definition wrap_departures :: "departure list" where
  "wrap_departures =
     [\<lparr>dep_tram = ''3'', dep_destination = ''Schkeuditz'',
       dep_time = ''2024.01.01.10:05:00'', dep_rest = []\<rparr>,
      \<lparr>dep_tram = ''9'', dep_destination = ''Schkeuditz'',
       dep_time = ''2024.01.02.10:01:00'', dep_rest = []\<rparr>,
      \<lparr>dep_tram = ''5'', dep_destination = ''Schkeuditz'',
       dep_time = ''2024.01.01.09:59:00'', dep_rest = []\<rparr>]"

definition wrap_env :: env where
  "wrap_env = \<lparr>now = scenario_now, getDeparturesForStop = (\<lambda>stop. Inr wrap_departures)\<rparr>"

text \<open>
  The parser after reading a configuration file with both sections and all six keys, the
  allow-list and the destinations towards home left open.
\<close>

definition ini_file :: "string \<Rightarrow> string \<Rightarrow> config_parser" where
  "ini_file allowed dh =
     (\<lambda>_. None)
       (''AUTHENTICATION'' \<mapsto>
          (\<lambda>_. None)(''token'' \<mapsto> Inr ''secret'', ''allowed_ids'' \<mapsto> Inr allowed),
        ''LOCATIONS'' \<mapsto>
          (\<lambda>_. None)(''workplace'' \<mapsto> Inr ''Hauptbahnhof'',
                      ''direction_workplace'' \<mapsto> Inr ''Dresden'',
                      ''home'' \<mapsto> Inr ''Markt'',
                      ''direction_home'' \<mapsto> Inr dh))"

text \<open>
  The same with the line \<open>token = 50%\<close>: the key is there, and asking for its value
  raises \<open>InterpolationSyntaxError\<close>.
\<close>

definition ini_file_percent :: config_parser where
  "ini_file_percent =
     (ini_file ''111'' ''Schkeuditz'')
       (''AUTHENTICATION'' \<mapsto>
          (\<lambda>_. None)(''token'' \<mapsto> Inl ''InterpolationSyntaxError'',
                      ''allowed_ids'' \<mapsto> Inr ''111''))"

section \<open>The access gate\<close>

lemma logger_log_DEBUG: "logger_log DEBUG msg w = w"
  by (simp add: logger_log_def)

lemma logger_log_WARNING: "logger_log WARNING msg w = w\<lparr>log := log w @ [(WARNING, msg)]\<rparr>"
  by (simp add: logger_log_def)

text \<open>
  Claim C3. For every request, the wrapped handler runs exactly when the allow-list is set,
  non-empty and holds the requesting identity, and then \<open>check_id\<close> does what the
  handler does. Otherwise nothing is sent and the log grows by exactly one entry, a
  warning. An unset or empty allow-list therefore lets no request through.
\<close>

theorem check_id_gate:
  "(id_allowed self (chat_id upd)
      \<longleftrightarrow> (\<exists>ids. allowed_ids self = Some ids \<and> ids \<noteq> [] \<and> chat_id upd \<in> set ids))
   \<and> (id_allowed self (chat_id upd) \<longrightarrow> check_id func self e upd w = func self e upd w)
   \<and> (\<not> id_allowed self (chat_id upd) \<longrightarrow>
        check_id func self e upd w = Inr (w\<lparr>log := log w @ [(WARNING, warning_text upd)]\<rparr>))
   \<and> (allowed_ids self = None \<or> allowed_ids self = Some [] \<longrightarrow>
        \<not> id_allowed self (chat_id upd))"
  by (auto simp: id_allowed_def check_id_def logger_log_DEBUG logger_log_WARNING split: option.splits)

lemma str_int_999: "str_int 999 = ''999''"
  by (simp add: str_int_def digits.simps digit_char_def)

theorem check_id_gate_witness:
  "id_allowed scenario_bot (chat_id (scenario_update 111))
   \<and> check_id start_body scenario_bot scenario_env (scenario_update 111) empty_world
       = Inr \<lparr>sent = [(111, ''Hello'')], log = []\<rparr>
   \<and> \<not> id_allowed scenario_bot (chat_id (scenario_update 999))
   \<and> check_id start_body scenario_bot scenario_env (scenario_update 999) empty_world
       = Inr \<lparr>sent = [], log = [(WARNING, ''User Ada None with id 999 not in id list'')]\<rparr>
   \<and> \<not> id_allowed (scenario_bot\<lparr>allowed_ids := None\<rparr>) (chat_id (scenario_update 111))
   \<and> \<not> id_allowed (scenario_bot\<lparr>allowed_ids := Some []\<rparr>) (chat_id (scenario_update 111))"
  using check_id_gate [of scenario_bot "scenario_update 111" start_body scenario_env empty_world]
    check_id_gate [of scenario_bot "scenario_update 999" start_body scenario_env empty_world]
    check_id_gate [of "scenario_bot\<lparr>allowed_ids := None\<rparr>" "scenario_update 111"]
    check_id_gate [of "scenario_bot\<lparr>allowed_ids := Some []\<rparr>" "scenario_update 111"]
  by (simp add: scenario_bot_def scenario_update_def empty_world_def start_body_def
      sendMessage_def warning_text_def str_opt_def str_int_999)

section \<open>The formatter changes its argument\<close>

text \<open>
  Claim C10. Formatting a connection whose \<open>delta\<close> is a pair overwrites that entry
  with the minutes, or with the text "< 1", and leaves every other entry alone. The
  connection it leaves behind differs from the one it got, and formatting that one again
  raises \<open>TypeError\<close> instead of returning a text.
\<close>

theorem return_connection_str_mutates:
  assumes "delta c = DeltaPair m s"
  shows "\<exists>txt. return_connection_str c
             = Inr (txt, c\<lparr>delta := (if m < 1 then DeltaStr ''< 1'' else DeltaInt m)\<rparr>)
           \<and> delta (c\<lparr>delta := (if m < 1 then DeltaStr ''< 1'' else DeltaInt m)\<rparr>) \<noteq> delta c
           \<and> return_connection_str (c\<lparr>delta := (if m < 1 then DeltaStr ''< 1'' else DeltaInt m)\<rparr>)
               = Inl TypeError"
  using assms by (simp add: return_connection_str_def Let_def)

theorem return_connection_str_mutates_witness:
  "delta \<lparr>tram = ''3'', destination = ''Schkeuditz'', time = ''10:05'', delta = DeltaPair 5 0\<rparr>
     = DeltaPair 5 0
   \<and> return_connection_str
        \<lparr>tram = ''3'', destination = ''Schkeuditz'', time = ''10:05'', delta = DeltaPair 5 0\<rparr>
       = Inr (''3 -> Schkeuditz @ 10:05 (5 Min.)'',
              \<lparr>tram = ''3'', destination = ''Schkeuditz'', time = ''10:05'', delta = DeltaInt 5\<rparr>)
   \<and> return_connection_str
        \<lparr>tram = ''3'', destination = ''Schkeuditz'', time = ''10:05'', delta = DeltaInt 5\<rparr>
       = Inl TypeError
   \<and> return_connection_str
        \<lparr>tram = ''3'', destination = ''Schkeuditz'', time = ''10:05'', delta = DeltaPair 0 30\<rparr>
       = Inr (''3 -> Schkeuditz @ 10:05 (< 1 Min.)'',
              \<lparr>tram = ''3'', destination = ''Schkeuditz'', time = ''10:05'', delta = DeltaStr ''< 1''\<rparr>)
   \<and> return_connection_str
        \<lparr>tram = ''3'', destination = ''Schkeuditz'', time = ''10:05'', delta = DeltaStr ''< 1''\<rparr>
       = Inl TypeError"
  using return_connection_str_mutates
    [of "\<lparr>tram = ''3'', destination = ''Schkeuditz'', time = ''10:05'', delta = DeltaPair 5 0\<rparr>" 5 0]
    return_connection_str_mutates
    [of "\<lparr>tram = ''3'', destination = ''Schkeuditz'', time = ''10:05'', delta = DeltaPair 0 30\<rparr>" 0 30]
  by (simp add: return_connection_str_def format_connection_def str_delta_def str_int_def
      digits.simps digit_char_def)


section \<open>Selecting the next connection\<close>

subsection \<open>What the loop of get_connections returns\<close>

lemma seconds_datetime_sub:
  "seconds (datetime_sub t n) = ((timestamp t - timestamp n) mod 86400000000) div 1000000"
proof -
  have "((toordinal t - toordinal n) * 86400 + (day_seconds t - day_seconds n)) * 1000000
          + (microsecond t - microsecond n)
        = timestamp t - timestamp n"
    by (simp add: timestamp_def algebra_simps)
  then show ?thesis
    by (simp add: datetime_sub_def timedelta_new_def Let_def)
qed

lemma seconds_within_day:
  assumes "timestamp n \<le> timestamp t" and "timestamp t < timestamp n + 86400000000"
  shows "seconds (datetime_sub t n) = (timestamp t - timestamp n) div 1000000"
proof -
  have "(timestamp t - timestamp n) mod 86400000000 = timestamp t - timestamp n"
  proof (rule mod_pos_pos_trivial)
    show "0 \<le> timestamp t - timestamp n" using assms(1) by simp
    show "timestamp t - timestamp n < 86400000000" using assms(2) by simp
  qed
  then show ?thesis by (simp only: seconds_datetime_sub)
qed

lemma delta_connection_of:
  "delta (connection_of n d)
     = DeltaPair (seconds (datetime_sub (projr (strptime (dep_time d))) n) div 60)
                 (seconds (datetime_sub (projr (strptime (dep_time d))) n) mod 60)"
  by (simp add: connection_of_def make_connection_def divmod_def Let_def)

lemma destination_connection_of: "destination (connection_of n d) = dep_destination d"
  by (simp add: connection_of_def make_connection_def Let_def)

lemma connections_loop_Inr:
  "connections_loop n dir ds acc = Inr cs \<Longrightarrow>
     (\<forall>d\<in>set ds. \<exists>t. strptime (dep_time d) = Inr t)
     \<and> cs = acc @ map (connection_of n) (filter (\<lambda>d. dep_destination d \<in> set dir) ds)"
proof (induction ds arbitrary: acc)
  case Nil
  then show ?case by simp
next
  case (Cons d ds)
  from Cons.prems obtain t where t: "strptime (dep_time d) = Inr t"
    by (auto split: sum.splits)
  with Cons.prems have rec: "connections_loop n dir ds
      (if dep_destination d \<in> set dir then acc @ [make_connection n d t] else acc) = Inr cs"
    by simp
  from Cons.IH [OF rec] t show ?case
    by (auto simp: connection_of_def)
qed

lemma connections_loop_total:
  "\<forall>d\<in>set ds. \<exists>t. strptime (dep_time d) = Inr t \<Longrightarrow>
     connections_loop n dir ds acc
       = Inr (acc @ map (connection_of n) (filter (\<lambda>d. dep_destination d \<in> set dir) ds))"
proof (induction ds arbitrary: acc)
  case Nil
  then show ?case by simp
next
  case (Cons d ds)
  then obtain t where t: "strptime (dep_time d) = Inr t" by auto
  from Cons.prems have "\<forall>d\<in>set ds. \<exists>t. strptime (dep_time d) = Inr t" by simp
  from Cons.IH [OF this] t show ?case
    by (simp add: connection_of_def)
qed

lemma get_connections_Inr:
  assumes "getDeparturesForStop e stop = Inr deps"
    and "get_connections e stop direction = Inr conns"
  shows "(\<forall>d\<in>set deps. \<exists>t. strptime (dep_time d) = Inr t)
     \<and> conns = map (connection_of (now e)) (filter (\<lambda>d. dep_destination d \<in> set direction) deps)"
  using assms connections_loop_Inr [of "now e" direction deps "[]" conns]
  by (simp add: get_connections_def)

subsection \<open>What min returns on pairs\<close>

lemma delta_le_trans: "delta_le a b \<Longrightarrow> delta_le b c \<Longrightarrow> delta_le a c"
  by (cases a; cases b; cases c) auto

lemma min_loop_pairs:
  "\<forall>c\<in>set (b # cs). \<exists>m s. delta c = DeltaPair m s \<Longrightarrow>
     \<exists>r. min_loop b cs = Inr r \<and> r \<in> set (b # cs) \<and> delta_le (delta r) (delta b)
        \<and> (\<forall>c\<in>set cs. delta_le (delta r) (delta c))"
proof (induction cs arbitrary: b)
  case Nil
  then show ?case by auto
next
  case (Cons c cs)
  from Cons.prems obtain m1 s1 m2 s2 where
    b: "delta b = DeltaPair m1 s1" and c: "delta c = DeltaPair m2 s2"
    by auto
  let ?b' = "if m2 < m1 \<or> (m2 = m1 \<and> s2 < s1) then c else b"
  have step: "min_loop b (c # cs) = min_loop ?b' cs"
    by (simp add: b c)
  have pairs: "\<forall>x\<in>set (?b' # cs). \<exists>m s. delta x = DeltaPair m s"
    using Cons.prems by auto
  from Cons.IH [OF pairs] obtain r where
    r: "min_loop ?b' cs = Inr r" "r \<in> set (?b' # cs)" "delta_le (delta r) (delta ?b')"
       "\<forall>x\<in>set cs. delta_le (delta r) (delta x)"
    by blast
  have b'b: "delta_le (delta ?b') (delta b)" and b'c: "delta_le (delta ?b') (delta c)"
    using b c by auto
  have "delta_le (delta r) (delta b)" "delta_le (delta r) (delta c)"
    using delta_le_trans [OF r(3) b'b] delta_le_trans [OF r(3) b'c] by auto
  with r step show ?case
    by (auto split: if_splits)
qed

lemma get_next_connection_pairs:
  assumes "conns \<noteq> []" and "\<forall>c\<in>set conns. \<exists>m s. delta c = DeltaPair m s"
  shows "\<exists>r. get_next_connection conns = Inr r \<and> r \<in> set conns
     \<and> (\<forall>c\<in>set conns. delta_le (delta r) (delta c))"
proof -
  from assms(1) obtain b cs where conns: "conns = b # cs" by (cases conns) auto
  from min_loop_pairs [of b cs] assms(2) conns obtain r where
    "min_loop b cs = Inr r" "r \<in> set (b # cs)" "delta_le (delta r) (delta b)"
    "\<forall>c\<in>set cs. delta_le (delta r) (delta c)"
    by blast
  then show ?thesis by (auto simp: get_next_connection_def conns)
qed


lemma min_loop_mem: "min_loop b cs = Inr r \<Longrightarrow> r \<in> set (b # cs)"
proof (induction cs arbitrary: b)
  case Nil
  then show ?case by simp
next
  case (Cons c cs)
  from Cons.prems obtain x where x: "py_lt (delta c) (delta b) = Inr x"
    by (auto split: sum.splits)
  with Cons.prems have "min_loop (if x then c else b) cs = Inr r" by simp
  from Cons.IH [OF this] show ?case by (auto split: if_splits)
qed

lemma get_next_connection_mem: "get_next_connection conns = Inr r \<Longrightarrow> r \<in> set conns"
  using min_loop_mem by (cases conns) (auto simp: get_next_connection_def)

lemma get_connections_remote:
  "get_connections e stop direction = Inr conns \<Longrightarrow> \<exists>deps. getDeparturesForStop e stop = Inr deps"
  by (auto simp: get_connections_def split: sum.splits)

subsection \<open>The selector\<close>

text \<open>
  Against claim C1 as it was stated: with tram 3 in five minutes, tram 9 in a day and one
  minute and tram 5 a minute ago, the pairs computed are (5, 0), (1, 0) and (1439, 0), the
  selector returns tram 9 and the \<open>home\<close> handler announces it in one minute. The
  differences of the scheduled times and the clock's time, floor-divided by 60, are
  (5, 0), (1441, 0) and (-1, 0): by them tram 9 is the last of the three.
\<close>

theorem selector_prefers_wrapped_delta:
  "get_connections wrap_env ''Hauptbahnhof'' [''Schkeuditz'']
     = Inr [\<lparr>tram = ''3'', destination = ''Schkeuditz'', time = ''10:05'', delta = DeltaPair 5 0\<rparr>,
            \<lparr>tram = ''9'', destination = ''Schkeuditz'', time = ''10:01'', delta = DeltaPair 1 0\<rparr>,
            \<lparr>tram = ''5'', destination = ''Schkeuditz'', time = ''09:59'',
             delta = DeltaPair 1439 0\<rparr>]
   \<and> get_next_connection
        [\<lparr>tram = ''3'', destination = ''Schkeuditz'', time = ''10:05'', delta = DeltaPair 5 0\<rparr>,
         \<lparr>tram = ''9'', destination = ''Schkeuditz'', time = ''10:01'', delta = DeltaPair 1 0\<rparr>,
         \<lparr>tram = ''5'', destination = ''Schkeuditz'', time = ''09:59'',
          delta = DeltaPair 1439 0\<rparr>]
       = Inr \<lparr>tram = ''9'', destination = ''Schkeuditz'', time = ''10:01'', delta = DeltaPair 1 0\<rparr>
   \<and> home scenario_bot wrap_env (scenario_update 111) empty_world
       = Inr \<lparr>sent = [(111, ''9 -> Schkeuditz @ 10:01 (1 Min.)'')], log = []\<rparr>
   \<and> map (\<lambda>d. divmod ((timestamp (projr (strptime (dep_time d))) - timestamp scenario_now)
                        div 1000000) 60) wrap_departures
       = [(5, 0), (1441, 0), (- 1, 0)]"
proof -
  have a: "get_connections wrap_env ''Hauptbahnhof'' [''Schkeuditz'']
     = Inr [\<lparr>tram = ''3'', destination = ''Schkeuditz'', time = ''10:05'', delta = DeltaPair 5 0\<rparr>,
            \<lparr>tram = ''9'', destination = ''Schkeuditz'', time = ''10:01'', delta = DeltaPair 1 0\<rparr>,
            \<lparr>tram = ''5'', destination = ''Schkeuditz'', time = ''09:59'',
             delta = DeltaPair 1439 0\<rparr>]"
    by code_simp
  have b: "get_next_connection
        [\<lparr>tram = ''3'', destination = ''Schkeuditz'', time = ''10:05'', delta = DeltaPair 5 0\<rparr>,
         \<lparr>tram = ''9'', destination = ''Schkeuditz'', time = ''10:01'', delta = DeltaPair 1 0\<rparr>,
         \<lparr>tram = ''5'', destination = ''Schkeuditz'', time = ''09:59'',
          delta = DeltaPair 1439 0\<rparr>]
       = Inr \<lparr>tram = ''9'', destination = ''Schkeuditz'', time = ''10:01'', delta = DeltaPair 1 0\<rparr>"
    by code_simp
  have c: "home scenario_bot wrap_env (scenario_update 111) empty_world
       = Inr \<lparr>sent = [(111, ''9 -> Schkeuditz @ 10:01 (1 Min.)'')], log = []\<rparr>"
    by code_simp
  have d: "map (\<lambda>d. divmod ((timestamp (projr (strptime (dep_time d))) - timestamp scenario_now)
                        div 1000000) 60) wrap_departures
       = [(5, 0), (1441, 0), (- 1, 0)]"
    by code_simp
  from a b c d show ?thesis by simp
qed

text \<open>
  Claim C1, as amended. For every stop and destination list for which the remote call
  answers and the times parse, the connections are those of the departures whose
  destination is in the list, in the order of the answer; each carries as \<open>delta\<close>
  the pair \<open>(s div 60, s mod 60)\<close> where \<open>s\<close> is the \<open>seconds\<close> entry of
  \<open>time - now\<close>, that is the difference of the two in whole seconds taken modulo one
  day, which for a time from now up to a day ahead is that difference itself; and when at
  least one departure qualifies, the selector returns one of them whose pair is not larger
  than any other's, minutes compared first and seconds on a tie.
\<close>

theorem get_next_connection_smallest_delta:
  assumes "getDeparturesForStop e stop = Inr deps"
    and "get_connections e stop direction = Inr conns"
    and "\<exists>d\<in>set deps. dep_destination d \<in> set direction"
  shows "conns = map (connection_of (now e))
                   (filter (\<lambda>d. dep_destination d \<in> set direction) deps)
     \<and> (\<forall>d\<in>set deps. \<exists>t. strptime (dep_time d) = Inr t
            \<and> delta (connection_of (now e) d)
                = DeltaPair (seconds (datetime_sub t (now e)) div 60)
                            (seconds (datetime_sub t (now e)) mod 60)
            \<and> seconds (datetime_sub t (now e))
                = ((timestamp t - timestamp (now e)) mod 86400000000) div 1000000
            \<and> (timestamp (now e) \<le> timestamp t
                 \<and> timestamp t < timestamp (now e) + 86400000000 \<longrightarrow>
               seconds (datetime_sub t (now e))
                 = (timestamp t - timestamp (now e)) div 1000000))
     \<and> (\<exists>c. get_next_connection conns = Inr c \<and> c \<in> set conns
            \<and> (\<forall>c'\<in>set conns. delta_le (delta c) (delta c')))"
proof -
  from get_connections_Inr [OF assms(1,2)] have
    parse: "\<forall>d\<in>set deps. \<exists>t. strptime (dep_time d) = Inr t" and
    conns: "conns = map (connection_of (now e))
                   (filter (\<lambda>d. dep_destination d \<in> set direction) deps)"
    by auto
  have deltas: "\<forall>d\<in>set deps. \<exists>t. strptime (dep_time d) = Inr t
            \<and> delta (connection_of (now e) d)
                = DeltaPair (seconds (datetime_sub t (now e)) div 60)
                            (seconds (datetime_sub t (now e)) mod 60)
            \<and> seconds (datetime_sub t (now e))
                = ((timestamp t - timestamp (now e)) mod 86400000000) div 1000000
            \<and> (timestamp (now e) \<le> timestamp t
                 \<and> timestamp t < timestamp (now e) + 86400000000 \<longrightarrow>
               seconds (datetime_sub t (now e))
                 = (timestamp t - timestamp (now e)) div 1000000)"
  proof
    fix d assume "d \<in> set deps"
    with parse obtain t where t: "strptime (dep_time d) = Inr t" by auto
    then have "delta (connection_of (now e) d)
                = DeltaPair (seconds (datetime_sub t (now e)) div 60)
                            (seconds (datetime_sub t (now e)) mod 60)"
      by (simp add: delta_connection_of)
    with t seconds_within_day [of "now e" t] seconds_datetime_sub [of t "now e"]
    show "\<exists>t. strptime (dep_time d) = Inr t
            \<and> delta (connection_of (now e) d)
                = DeltaPair (seconds (datetime_sub t (now e)) div 60)
                            (seconds (datetime_sub t (now e)) mod 60)
            \<and> seconds (datetime_sub t (now e))
                = ((timestamp t - timestamp (now e)) mod 86400000000) div 1000000
            \<and> (timestamp (now e) \<le> timestamp t
                 \<and> timestamp t < timestamp (now e) + 86400000000 \<longrightarrow>
               seconds (datetime_sub t (now e))
                 = (timestamp t - timestamp (now e)) div 1000000)"
      by blast
  qed
  from assms(3) conns have ne: "conns \<noteq> []"
    by (auto simp: filter_empty_conv)
  have pairs: "\<forall>c\<in>set conns. \<exists>m s. delta c = DeltaPair m s"
    using conns by (auto simp: delta_connection_of)
  from get_next_connection_pairs [OF ne pairs] conns deltas show ?thesis
    by blast
qed

text \<open>
  Claim C2. For every answer of the remote call and every destination list, each
  connection that \<open>get_connections\<close> returns, and so the one
  \<open>get_next_connection\<close> picks, has a destination from that list.
\<close>

theorem connections_destination_in_direction:
  assumes "get_connections e stop direction = Inr conns"
  shows "(\<forall>c\<in>set conns. destination c \<in> set direction)
     \<and> (\<forall>c. get_next_connection conns = Inr c \<longrightarrow> destination c \<in> set direction)"
proof -
  from get_connections_remote [OF assms] obtain deps where
    "getDeparturesForStop e stop = Inr deps" by blast
  from get_connections_Inr [OF this assms] have
    "conns = map (connection_of (now e))
                   (filter (\<lambda>d. dep_destination d \<in> set direction) deps)"
    by simp
  then have all: "\<forall>c\<in>set conns. destination c \<in> set direction"
    by (auto simp: destination_connection_of)
  with get_next_connection_mem show ?thesis by blast
qed

lemma get_connections_no_match:
  assumes "getDeparturesForStop e stop = Inr deps"
    and "\<forall>d\<in>set deps. \<exists>t. strptime (dep_time d) = Inr t"
    and "\<forall>d\<in>set deps. dep_destination d \<notin> set direction"
  shows "get_connections e stop direction = Inr []"
proof -
  from assms(3) have "filter (\<lambda>d. dep_destination d \<in> set direction) deps = []"
    by (simp add: filter_empty_conv)
  with connections_loop_total [OF assms(2), of "now e" direction "[]"] assms(1)
  show ?thesis by (simp add: get_connections_def)
qed

text \<open>
  Claim C4. For every answer of the remote call whose times parse and in which no
  destination is in the list, no connection is built, the selection raises
  \<open>ValueError\<close> (the spec's \<open>NoConnectionFound\<close>), and the \<open>home\<close> and
  \<open>work\<close> handlers, for an allowed identity, catch it and send the text
  "Keine Verbindung gefunden.".
\<close>

theorem no_match_replies_not_found:
  assumes "getDeparturesForStop e stop = Inr deps"
    and "\<forall>d\<in>set deps. \<exists>t. strptime (dep_time d) = Inr t"
    and "\<forall>d\<in>set deps. dep_destination d \<notin> set direction"
  shows "get_connections e stop direction = Inr []
     \<and> get_next_connection [] = Inl ValueError
     \<and> reply_next e stop direction upd w
         = Inr (sendMessage (chat_id upd) ''Keine Verbindung gefunden.'' w)
     \<and> (stop = workplace self \<and> direction = direction_home self
          \<and> id_allowed self (chat_id upd) \<longrightarrow>
        home self e upd w = Inr (sendMessage (chat_id upd) ''Keine Verbindung gefunden.'' w))
     \<and> (stop = home_address self \<and> direction = direction_workplace self
          \<and> id_allowed self (chat_id upd) \<longrightarrow>
        work self e upd w = Inr (sendMessage (chat_id upd) ''Keine Verbindung gefunden.'' w))"
proof -
  note conns = get_connections_no_match [OF assms]
  have sel: "get_next_connection [] = Inl ValueError"
    by (simp add: get_next_connection_def)
  have reply: "reply_next e stop direction upd w
         = Inr (sendMessage (chat_id upd) ''Keine Verbindung gefunden.'' w)"
    by (simp add: reply_next_def conns sel)
  show ?thesis
    using conns sel reply
    by (auto simp: home_def work_def check_id_def home_body_def work_body_def logger_log_DEBUG)
qed


subsection \<open>The scenario, evaluated\<close>

lemma scenario_remote:
  "getDeparturesForStop scenario_env ''Hauptbahnhof'' = Inr scenario_departures"
  by (simp add: scenario_env_def)

lemma scenario_times_parse:
  "\<forall>d\<in>set scenario_departures. \<exists>t. strptime (dep_time d) = Inr t"
proof -
  have "strptime ''2024.01.01.10:05:00''
      = Inr \<lparr>year = 2024, month = 1, day = 1, hour = 10, minute = 5, second = 0, microsecond = 0\<rparr>"
    by code_simp
  moreover have "strptime ''2024.01.01.10:02:00''
      = Inr \<lparr>year = 2024, month = 1, day = 1, hour = 10, minute = 2, second = 0, microsecond = 0\<rparr>"
    by code_simp
  ultimately show ?thesis by (simp add: scenario_departures_def)
qed

lemma scenario_connections_both:
  "get_connections scenario_env ''Hauptbahnhof'' [''Schkeuditz'', ''Leipzig'']
     = Inr [\<lparr>tram = ''3'', destination = ''Schkeuditz'', time = ''10:05'', delta = DeltaPair 5 0\<rparr>,
            \<lparr>tram = ''7'', destination = ''Leipzig'', time = ''10:02'', delta = DeltaPair 2 0\<rparr>]"
  by code_simp

lemma scenario_connections_home:
  "get_connections scenario_env ''Hauptbahnhof'' [''Schkeuditz'']
     = Inr [\<lparr>tram = ''3'', destination = ''Schkeuditz'', time = ''10:05'', delta = DeltaPair 5 0\<rparr>]"
  by code_simp

theorem get_next_connection_smallest_delta_witness:
  "getDeparturesForStop scenario_env ''Hauptbahnhof'' = Inr scenario_departures
   \<and> get_connections scenario_env ''Hauptbahnhof'' [''Schkeuditz'', ''Leipzig'']
       = Inr [\<lparr>tram = ''3'', destination = ''Schkeuditz'', time = ''10:05'', delta = DeltaPair 5 0\<rparr>,
              \<lparr>tram = ''7'', destination = ''Leipzig'', time = ''10:02'', delta = DeltaPair 2 0\<rparr>]
   \<and> get_next_connection
        [\<lparr>tram = ''3'', destination = ''Schkeuditz'', time = ''10:05'', delta = DeltaPair 5 0\<rparr>,
         \<lparr>tram = ''7'', destination = ''Leipzig'', time = ''10:02'', delta = DeltaPair 2 0\<rparr>]
       = Inr \<lparr>tram = ''7'', destination = ''Leipzig'', time = ''10:02'', delta = DeltaPair 2 0\<rparr>"
proof -
  have some: "\<exists>d\<in>set scenario_departures. dep_destination d \<in> set [''Schkeuditz'', ''Leipzig'']"
    by (simp add: scenario_departures_def)
  from get_next_connection_smallest_delta [OF scenario_remote scenario_connections_both some]
  obtain c where
    c: "get_next_connection
        [\<lparr>tram = ''3'', destination = ''Schkeuditz'', time = ''10:05'', delta = DeltaPair 5 0\<rparr>,
         \<lparr>tram = ''7'', destination = ''Leipzig'', time = ''10:02'', delta = DeltaPair 2 0\<rparr>]
       = Inr c"
    and mem: "c \<in> set
        [\<lparr>tram = ''3'', destination = ''Schkeuditz'', time = ''10:05'', delta = DeltaPair 5 0\<rparr>,
         \<lparr>tram = ''7'', destination = ''Leipzig'', time = ''10:02'', delta = DeltaPair 2 0\<rparr>]"
    and least: "\<forall>c'\<in>set
        [\<lparr>tram = ''3'', destination = ''Schkeuditz'', time = ''10:05'', delta = DeltaPair 5 0\<rparr>,
         \<lparr>tram = ''7'', destination = ''Leipzig'', time = ''10:02'', delta = DeltaPair 2 0\<rparr>].
          delta_le (delta c) (delta c')"
    by blast
  from mem least have "c = \<lparr>tram = ''7'', destination = ''Leipzig'', time = ''10:02'', delta = DeltaPair 2 0\<rparr>"
    by auto
  with c scenario_remote scenario_connections_both show ?thesis by simp
qed

theorem connections_destination_in_direction_witness:
  "get_connections scenario_env ''Hauptbahnhof'' [''Schkeuditz'']
     = Inr [\<lparr>tram = ''3'', destination = ''Schkeuditz'', time = ''10:05'', delta = DeltaPair 5 0\<rparr>]
   \<and> get_next_connection
        [\<lparr>tram = ''3'', destination = ''Schkeuditz'', time = ''10:05'', delta = DeltaPair 5 0\<rparr>]
       = Inr \<lparr>tram = ''3'', destination = ''Schkeuditz'', time = ''10:05'', delta = DeltaPair 5 0\<rparr>
   \<and> destination \<lparr>tram = ''3'', destination = ''Schkeuditz'', time = ''10:05'', delta = DeltaPair 5 0\<rparr>
       \<in> set [''Schkeuditz'']"
  using connections_destination_in_direction [OF scenario_connections_home]
    scenario_connections_home
  by (simp add: get_next_connection_def)

theorem no_match_replies_not_found_witness:
  "getDeparturesForStop scenario_env ''Hauptbahnhof'' = Inr scenario_departures
   \<and> get_connections scenario_env ''Hauptbahnhof'' [''Dresden''] = Inr []
   \<and> get_next_connection [] = Inl ValueError
   \<and> work scenario_bot scenario_env (scenario_update 111) empty_world
       = Inr \<lparr>sent = [(111, ''Keine Verbindung gefunden.'')], log = []\<rparr>
   \<and> home (scenario_bot\<lparr>direction_home := [''Dresden'']\<rparr>) scenario_env (scenario_update 111)
         empty_world
       = Inr \<lparr>sent = [(111, ''Keine Verbindung gefunden.'')], log = []\<rparr>"
proof -
  have none: "\<forall>d\<in>set scenario_departures. dep_destination d \<notin> set [''Dresden'']"
    by (simp add: scenario_departures_def)
  have allowed: "id_allowed scenario_bot 111"
    by (simp add: id_allowed_def scenario_bot_def)
  have allowed': "id_allowed (scenario_bot\<lparr>direction_home := [''Dresden'']\<rparr>) 111"
    by (simp add: id_allowed_def scenario_bot_def)
  from no_match_replies_not_found [OF scenario_remote scenario_times_parse none,
      of "scenario_update 111" empty_world scenario_bot]
    no_match_replies_not_found [OF scenario_remote scenario_times_parse none,
      of "scenario_update 111" empty_world "scenario_bot\<lparr>direction_home := [''Dresden'']\<rparr>"]
    allowed allowed' scenario_remote
  show ?thesis
    by (simp add: scenario_bot_def scenario_update_def empty_world_def sendMessage_def)
qed


section \<open>The range of the computed pair\<close>

lemma delta_make_connection:
  "delta (make_connection n d t)
     = DeltaPair (seconds (datetime_sub t n) div 60) (seconds (datetime_sub t n) mod 60)"
  by (simp add: make_connection_def divmod_def Let_def)

lemma seconds_range: "0 \<le> seconds (datetime_sub t n) \<and> seconds (datetime_sub t n) \<le> 86399"
proof -
  let ?x = "(timestamp t - timestamp n) mod 86400000000"
  have "0 \<le> ?x" "?x < 86400000000" by simp_all
  then have "0 \<le> ?x div 1000000" "?x div 1000000 \<le> 86399" by simp_all
  then show ?thesis by (simp add: seconds_datetime_sub)
qed

text \<open>
  Claim C9. Whatever the scheduled time and the clock's time, the minutes of the computed
  pair lie between 0 and 1439 and its seconds between 0 and 59, because only the
  \<open>seconds\<close> entry of the difference is used and its \<open>days\<close> entry is dropped.
  So two scheduled times a whole number of days apart, such as one 24 hours and N minutes
  away and one N minutes away, get the same pair.
\<close>

theorem delta_bounds:
  "(\<exists>m s. delta (make_connection n d t) = DeltaPair m s
        \<and> 0 \<le> m \<and> m \<le> 1439 \<and> 0 \<le> s \<and> s \<le> 59)
   \<and> (timestamp t' = timestamp t + k * 86400000000 \<longrightarrow>
        delta (make_connection n d' t') = delta (make_connection n d t))"
proof -
  let ?s = "seconds (datetime_sub t n)"
  from seconds_range [of t n] have lo: "0 \<le> ?s" and hi: "?s \<le> 86399"
    by simp_all
  from lo have m_lo: "0 \<le> ?s div 60"
    by (simp add: pos_imp_zdiv_nonneg_iff)
  from hi have "?s div 60 \<le> 86399 div 60"
    by (rule zdiv_mono1) simp
  then have m_hi: "?s div 60 \<le> 1439"
    by simp
  have s_lo: "0 \<le> ?s mod 60"
    by simp
  have "?s mod 60 < 60"
    by simp
  then have s_hi: "?s mod 60 \<le> 59"
    by linarith
  from m_lo m_hi s_lo s_hi have bounds: "\<exists>m s. delta (make_connection n d t) = DeltaPair m s
        \<and> 0 \<le> m \<and> m \<le> 1439 \<and> 0 \<le> s \<and> s \<le> 59"
    by (simp add: delta_make_connection)
  have shift: "timestamp t' = timestamp t + k * 86400000000 \<longrightarrow>
        delta (make_connection n d' t') = delta (make_connection n d t)"
  proof
    assume eq: "timestamp t' = timestamp t + k * 86400000000"
    have "(timestamp t' - timestamp n) mod 86400000000
        = (timestamp t - timestamp n + k * 86400000000) mod 86400000000"
      by (simp add: eq algebra_simps)
    also have "\<dots> = (timestamp t - timestamp n) mod 86400000000"
      by simp
    finally have "seconds (datetime_sub t' n) = seconds (datetime_sub t n)"
      by (simp add: seconds_datetime_sub)
    then show "delta (make_connection n d' t') = delta (make_connection n d t)"
      by (simp add: delta_make_connection)
  qed
  from bounds shift show ?thesis by blast
qed

lemma neg_mod_wrap:
  fixes a M :: int
  assumes "0 < a" and "a \<le> M"
  shows "(- a) mod M = M - a"
proof -
  have "(M - a) mod M = (- a) mod M"
    using mod_add_self1 [of M "- a"] by simp
  moreover have "(M - a) mod M = M - a"
  proof (rule mod_pos_pos_trivial)
    show "0 \<le> M - a" using assms(2) by simp
    show "M - a < M" using assms(1) by simp
  qed
  ultimately show ?thesis by simp
qed

text \<open>
  Claim C6, as amended. For every departure scheduled earlier than the clock's time, the
  pair is computed from the \<open>seconds\<close> entry of the negative difference, which the
  library has normalised: the difference taken modulo one day. For a departure at most a
  day in the past that is one day minus the time gone since, in whole seconds; it is not
  the absolute difference.
\<close>

theorem past_departure_delta:
  assumes "timestamp t < timestamp n"
  shows "delta (make_connection n d t)
           = DeltaPair ((((timestamp t - timestamp n) mod 86400000000) div 1000000) div 60)
                       ((((timestamp t - timestamp n) mod 86400000000) div 1000000) mod 60)
     \<and> (timestamp n - timestamp t \<le> 86400000000 \<longrightarrow>
          delta (make_connection n d t)
            = DeltaPair (((86400000000 - (timestamp n - timestamp t)) div 1000000) div 60)
                        (((86400000000 - (timestamp n - timestamp t)) div 1000000) mod 60))"
proof -
  have gen: "delta (make_connection n d t)
           = DeltaPair ((((timestamp t - timestamp n) mod 86400000000) div 1000000) div 60)
                       ((((timestamp t - timestamp n) mod 86400000000) div 1000000) mod 60)"
    by (simp add: delta_make_connection seconds_datetime_sub)
  have "timestamp n - timestamp t \<le> 86400000000 \<Longrightarrow>
      (timestamp t - timestamp n) mod 86400000000 = 86400000000 - (timestamp n - timestamp t)"
    using neg_mod_wrap [of "timestamp n - timestamp t" 86400000000] assms by simp
  with gen show ?thesis by simp
qed


theorem delta_bounds_witness:
  "timestamp \<lparr>year = 2024, month = 1, day = 2, hour = 10, minute = 5, second = 0, microsecond = 0\<rparr>
     = timestamp \<lparr>year = 2024, month = 1, day = 1, hour = 10, minute = 5, second = 0, microsecond = 0\<rparr>
       + 1 * 86400000000
   \<and> delta (make_connection scenario_now next_day_departure
        \<lparr>year = 2024, month = 1, day = 2, hour = 10, minute = 5, second = 0, microsecond = 0\<rparr>)
       = DeltaPair 5 0
   \<and> delta (make_connection scenario_now (hd scenario_departures)
        \<lparr>year = 2024, month = 1, day = 1, hour = 10, minute = 5, second = 0, microsecond = 0\<rparr>)
       = DeltaPair 5 0
   \<and> connections_loop scenario_now [''Schkeuditz'']
        [next_day_departure, hd scenario_departures, past_departure] []
       = Inr [\<lparr>tram = ''3'', destination = ''Schkeuditz'', time = ''10:05'', delta = DeltaPair 5 0\<rparr>,
              \<lparr>tram = ''3'', destination = ''Schkeuditz'', time = ''10:05'', delta = DeltaPair 5 0\<rparr>,
              \<lparr>tram = ''3'', destination = ''Schkeuditz'', time = ''09:59'', delta = DeltaPair 1439 0\<rparr>]"
proof -
  let ?t = "\<lparr>year = 2024, month = 1, day = 1, hour = 10, minute = 5, second = 0, microsecond = 0\<rparr>"
  let ?t' = "\<lparr>year = 2024, month = 1, day = 2, hour = 10, minute = 5, second = 0, microsecond = 0\<rparr>"
  have day: "timestamp ?t' = timestamp ?t + 1 * 86400000000"
    by code_simp
  have five: "delta (make_connection scenario_now (hd scenario_departures) ?t) = DeltaPair 5 0"
    by code_simp
  have loop: "connections_loop scenario_now [''Schkeuditz'']
        [next_day_departure, hd scenario_departures, past_departure] []
       = Inr [\<lparr>tram = ''3'', destination = ''Schkeuditz'', time = ''10:05'', delta = DeltaPair 5 0\<rparr>,
              \<lparr>tram = ''3'', destination = ''Schkeuditz'', time = ''10:05'', delta = DeltaPair 5 0\<rparr>,
              \<lparr>tram = ''3'', destination = ''Schkeuditz'', time = ''09:59'', delta = DeltaPair 1439 0\<rparr>]"
    by code_simp
  from delta_bounds [where n = scenario_now and d = "hd scenario_departures" and t = ?t
      and t' = ?t' and k = 1 and d' = next_day_departure] day
  have "delta (make_connection scenario_now next_day_departure ?t')
      = delta (make_connection scenario_now (hd scenario_departures) ?t)"
    by blast
  with day five loop show ?thesis by simp
qed

subsection \<open>A departure in the past\<close>

text \<open>
  Against claim C6 as it was stated: a departure one minute before the clock's time gets
  1439 minutes, whereas the absolute difference of the two times is 60 seconds, that is
  one minute.
\<close>

theorem past_departure_not_absolute:
  "strptime (dep_time past_departure)
     = Inr \<lparr>year = 2024, month = 1, day = 1, hour = 9, minute = 59, second = 0, microsecond = 0\<rparr>
   \<and> timestamp \<lparr>year = 2024, month = 1, day = 1, hour = 9, minute = 59, second = 0, microsecond = 0\<rparr>
       < timestamp scenario_now
   \<and> connections_loop scenario_now [''Schkeuditz''] [past_departure] []
       = Inr [\<lparr>tram = ''3'', destination = ''Schkeuditz'', time = ''09:59'', delta = DeltaPair 1439 0\<rparr>]
   \<and> \<bar>timestamp \<lparr>year = 2024, month = 1, day = 1, hour = 9, minute = 59, second = 0, microsecond = 0\<rparr>
        - timestamp scenario_now\<bar> div 1000000 div 60 = 1"
proof -
  have a: "strptime (dep_time past_departure)
     = Inr \<lparr>year = 2024, month = 1, day = 1, hour = 9, minute = 59, second = 0, microsecond = 0\<rparr>"
    by code_simp
  have b: "timestamp \<lparr>year = 2024, month = 1, day = 1, hour = 9, minute = 59, second = 0, microsecond = 0\<rparr>
       < timestamp scenario_now"
    by code_simp
  have c: "connections_loop scenario_now [''Schkeuditz''] [past_departure] []
       = Inr [\<lparr>tram = ''3'', destination = ''Schkeuditz'', time = ''09:59'', delta = DeltaPair 1439 0\<rparr>]"
    by code_simp
  have d: "\<bar>timestamp \<lparr>year = 2024, month = 1, day = 1, hour = 9, minute = 59, second = 0, microsecond = 0\<rparr>
        - timestamp scenario_now\<bar> div 1000000 div 60 = 1"
    by code_simp
  from a b c d show ?thesis by simp
qed

theorem past_departure_delta_witness:
  "timestamp \<lparr>year = 2024, month = 1, day = 1, hour = 9, minute = 59, second = 0, microsecond = 0\<rparr>
       < timestamp scenario_now
   \<and> timestamp scenario_now
       - timestamp \<lparr>year = 2024, month = 1, day = 1, hour = 9, minute = 59, second = 0, microsecond = 0\<rparr>
       = 60000000
   \<and> delta (make_connection scenario_now past_departure
        \<lparr>year = 2024, month = 1, day = 1, hour = 9, minute = 59, second = 0, microsecond = 0\<rparr>)
       = DeltaPair 1439 0"
proof -
  let ?t = "\<lparr>year = 2024, month = 1, day = 1, hour = 9, minute = 59, second = 0, microsecond = 0\<rparr>"
  have past: "timestamp ?t < timestamp scenario_now"
    by code_simp
  have diff: "timestamp scenario_now - timestamp ?t = 60000000"
    by code_simp
  from diff have neg: "timestamp ?t - timestamp scenario_now = - 60000000"
    by simp
  from past_departure_delta [OF past, of past_departure]
  have "delta (make_connection scenario_now past_departure ?t) = DeltaPair 1439 0"
    by (simp add: neg)
  with past diff show ?thesis by simp
qed

section \<open>The formatter's text\<close>

lemma digit_char_is_digit: "k < 10 \<Longrightarrow> is_digit (digit_char k)"
proof -
  assume "k < 10"
  then have "k = 0 \<or> k = 1 \<or> k = 2 \<or> k = 3 \<or> k = 4 \<or> k = 5 \<or> k = 6 \<or> k = 7 \<or> k = 8 \<or> k = 9"
    by arith
  then show ?thesis
    by (auto simp: digit_char_def is_digit_def)
qed

lemma digits_all_digit: "c \<in> set (digits n) \<Longrightarrow> is_digit c"
proof (induction n rule: digits.induct)
  case (1 n)
  show ?case
  proof (cases "n < 10")
    case True
    with "1.prems" show ?thesis
      by (simp add: digits.simps [of n] digit_char_is_digit)
  next
    case False
    with "1.prems" have "c \<in> set (digits (n div 10)) \<or> c = digit_char (n mod 10)"
      by (auto simp: digits.simps [of n])
    with "1.IH" False show ?thesis
      by (auto simp: digit_char_is_digit)
  qed
qed

lemma str_int_not_token: "1 \<le> m \<Longrightarrow> str_int m \<noteq> ''< 1''"
proof
  assume "1 \<le> m" and eq: "str_int m = ''< 1''"
  then have "digits (nat m) = ''< 1''" by (simp add: str_int_def)
  then have "CHR ''<'' \<in> set (digits (nat m))" by simp
  then have "is_digit CHR ''<''" by (rule digits_all_digit)
  then show False by (simp add: is_digit_def)
qed

lemma strptime_range:
  "strptime s = Inr t \<Longrightarrow> 0 \<le> hour t \<and> hour t \<le> 23 \<and> 0 \<le> minute t \<and> minute t \<le> 59"
  by (auto simp: strptime_def datetime_new_def split: option.splits prod.splits if_splits)

lemma scenario_home:
  "home scenario_bot scenario_env (scenario_update 111) empty_world
     = Inr \<lparr>sent = [(111, ''3 -> Schkeuditz @ 10:05 (5 Min.)'')], log = []\<rparr>"
  by code_simp

text \<open>
  Claim C5. For a connection as the selector returns it, the formatter gives
  "line -> destination @ HH:MM (minutes Min.)", the minutes replaced by the text "< 1"
  exactly when the whole minutes of the pair are less than 1 (a number is never rendered
  as that text); the time entry is the scheduled hour and minute, two digits each. In the
  scenario the \<open>home\<close> handler replies "3 -> Schkeuditz @ 10:05 (5 Min.)".
\<close>

theorem return_connection_str_format:
  "(delta c = DeltaPair m s \<longrightarrow>
      (\<exists>c'. return_connection_str c
         = Inr (tram c @ '' -> '' @ destination c @ '' @ '' @ time c @ '' (''
                  @ (if m < 1 then ''< 1'' else str_int m) @ '' Min.)'', c')))
   \<and> (1 \<le> m \<longrightarrow> str_int m \<noteq> ''< 1'')
   \<and> (strptime (dep_time d) = Inr t \<longrightarrow>
        time (connection_of n d)
          = [digit_char (nat (hour t div 10)), digit_char (nat (hour t mod 10)), CHR '':'',
             digit_char (nat (minute t div 10)), digit_char (nat (minute t mod 10))]
        \<and> 0 \<le> hour t \<and> hour t \<le> 23 \<and> 0 \<le> minute t \<and> minute t \<le> 59)
   \<and> home scenario_bot scenario_env (scenario_update 111) empty_world
       = Inr \<lparr>sent = [(111, ''3 -> Schkeuditz @ 10:05 (5 Min.)'')], log = []\<rparr>"
proof -
  have fmt: "delta c = DeltaPair m s \<longrightarrow>
      (\<exists>c'. return_connection_str c
         = Inr (tram c @ '' -> '' @ destination c @ '' @ '' @ time c @ '' (''
                  @ (if m < 1 then ''< 1'' else str_int m) @ '' Min.)'', c'))"
    by (simp add: return_connection_str_def format_connection_def str_delta_def Let_def)
  have tok: "1 \<le> m \<longrightarrow> str_int m \<noteq> ''< 1''"
    using str_int_not_token by blast
  have hm: "strptime (dep_time d) = Inr t \<longrightarrow>
        time (connection_of n d)
          = [digit_char (nat (hour t div 10)), digit_char (nat (hour t mod 10)), CHR '':'',
             digit_char (nat (minute t div 10)), digit_char (nat (minute t mod 10))]
        \<and> 0 \<le> hour t \<and> hour t \<le> 23 \<and> 0 \<le> minute t \<and> minute t \<le> 59"
    using strptime_range [of "dep_time d" t]
    by (simp add: connection_of_def make_connection_def Let_def strftime_HM_def two_digits_def)
  from fmt tok hm scenario_home show ?thesis by blast
qed

theorem return_connection_str_format_witness:
  "delta \<lparr>tram = ''3'', destination = ''Schkeuditz'', time = ''10:05'', delta = DeltaPair 5 0\<rparr>
     = DeltaPair 5 0
   \<and> return_connection_str
        \<lparr>tram = ''3'', destination = ''Schkeuditz'', time = ''10:05'', delta = DeltaPair 5 0\<rparr>
       = Inr (''3 -> Schkeuditz @ 10:05 (5 Min.)'',
              \<lparr>tram = ''3'', destination = ''Schkeuditz'', time = ''10:05'', delta = DeltaInt 5\<rparr>)
   \<and> return_connection_str
        \<lparr>tram = ''7'', destination = ''Leipzig'', time = ''10:00'', delta = DeltaPair 0 59\<rparr>
       = Inr (''7 -> Leipzig @ 10:00 (< 1 Min.)'',
              \<lparr>tram = ''7'', destination = ''Leipzig'', time = ''10:00'', delta = DeltaStr ''< 1''\<rparr>)
   \<and> strptime (dep_time (hd scenario_departures))
       = Inr \<lparr>year = 2024, month = 1, day = 1, hour = 10, minute = 5, second = 0, microsecond = 0\<rparr>
   \<and> time (connection_of scenario_now (hd scenario_departures)) = ''10:05''"
proof -
  let ?c = "\<lparr>tram = ''3'', destination = ''Schkeuditz'', time = ''10:05'', delta = DeltaPair 5 0\<rparr>"
  let ?t = "\<lparr>year = 2024, month = 1, day = 1, hour = 10, minute = 5, second = 0, microsecond = 0\<rparr>"
  have parse: "strptime (dep_time (hd scenario_departures)) = Inr ?t"
    by code_simp
  have a: "return_connection_str ?c
       = Inr (''3 -> Schkeuditz @ 10:05 (5 Min.)'',
              \<lparr>tram = ''3'', destination = ''Schkeuditz'', time = ''10:05'', delta = DeltaInt 5\<rparr>)"
    by code_simp
  have b: "return_connection_str
        \<lparr>tram = ''7'', destination = ''Leipzig'', time = ''10:00'', delta = DeltaPair 0 59\<rparr>
       = Inr (''7 -> Leipzig @ 10:00 (< 1 Min.)'',
              \<lparr>tram = ''7'', destination = ''Leipzig'', time = ''10:00'', delta = DeltaStr ''< 1''\<rparr>)"
    by code_simp
  from return_connection_str_format [of ?c 5 0 "hd scenario_departures" ?t scenario_now] parse
  have "time (connection_of scenario_now (hd scenario_departures))
      = [digit_char (nat (hour ?t div 10)), digit_char (nat (hour ?t mod 10)), CHR '':'',
         digit_char (nat (minute ?t div 10)), digit_char (nat (minute ?t mod 10))]"
    by blast
  then have c: "time (connection_of scenario_now (hd scenario_departures)) = ''10:05''"
    by (simp add: digit_char_def)
  from parse a b c show ?thesis by simp
qed


section \<open>Loading the configuration\<close>

subsection \<open>Failures of int\<close>

lemma py_int_error: "py_int s = Inl e \<Longrightarrow> e = ValueError"
  by (auto simp: py_int_def split: list.splits if_splits option.splits)

lemma ints_of_Inl:
  "ints_of xs = Inl e \<Longrightarrow> e = ValueError \<and> (\<exists>x\<in>set xs. py_int x = Inl ValueError)"
proof (induction xs)
  case Nil
  then show ?case by simp
next
  case (Cons x xs)
  show ?case
  proof (cases "py_int x")
    case (Inl e')
    with Cons.prems py_int_error [of x e'] show ?thesis by auto
  next
    case (Inr i)
    with Cons.prems have "ints_of xs = Inl e"
      by (auto split: sum.splits)
    with Cons.IH show ?thesis by auto
  qed
qed

lemma ints_of_fails:
  "x \<in> set xs \<Longrightarrow> py_int x = Inl ValueError \<Longrightarrow> ints_of xs = Inl ValueError"
proof (induction xs)
  case Nil
  then show ?case by simp
next
  case (Cons y ys)
  show ?case
  proof (cases "py_int y")
    case (Inl e')
    with py_int_error [of y e'] show ?thesis by simp
  next
    case (Inr i)
    with Cons.prems have "x \<in> set ys" by auto
    from Cons.IH [OF this Cons.prems(2)] Inr show ?thesis by simp
  qed
qed


lemma strip_chars: "c \<in> set s \<Longrightarrow> is_space c \<or> c \<in> set (strip s)"
proof -
  assume c: "c \<in> set s"
  let ?s' = "dropWhile is_space s"
  have "set s = set (takeWhile is_space s) \<union> set ?s'"
    by (metis set_append takeWhile_dropWhile_id)
  moreover have "set ?s' = set (takeWhile is_space (rev ?s')) \<union> set (dropWhile is_space (rev ?s'))"
    by (metis set_append set_rev takeWhile_dropWhile_id)
  moreover have "set (strip s) = set (dropWhile is_space (rev ?s'))"
    by (simp add: strip_def)
  ultimately have "c \<in> set (takeWhile is_space s) \<or> c \<in> set (takeWhile is_space (rev ?s'))
      \<or> c \<in> set (strip s)"
    using c by auto
  then show ?thesis
    by (auto dest: set_takeWhileD)
qed

lemma int_digits_chars:
  "int_digits acc cs = Some n \<Longrightarrow> \<forall>c\<in>set cs. is_digit c \<or> c = CHR ''_''"
  by (induction acc cs rule: int_digits.induct) (auto split: if_splits)

lemma int_unsigned_chars:
  "int_unsigned u = Some n \<Longrightarrow> \<forall>c\<in>set u. is_digit c \<or> c = CHR ''_''"
  using int_digits_chars
  by (cases u) (auto simp: int_unsigned_def split: if_splits)

lemma py_int_chars:
  assumes "py_int x = Inr i" and "c \<in> set x"
  shows "\<not> non_numeric_char c"
proof -
  from assms(1) obtain a as where st: "strip x = a # as"
    by (auto simp: py_int_def split: list.splits)
  have body: "\<forall>c\<in>set (a # as). is_digit c \<or> c = CHR ''_'' \<or> c = CHR ''-'' \<or> c = CHR ''+''"
  proof (cases "a = CHR ''-'' \<or> a = CHR ''+''")
    case True
    with assms(1) st obtain n where "int_unsigned as = Some n"
      by (auto simp: py_int_def split: option.splits if_splits)
    from int_unsigned_chars [OF this] True show ?thesis by auto
  next
    case False
    with assms(1) st obtain n where "int_unsigned (a # as) = Some n"
      by (auto simp: py_int_def split: option.splits if_splits)
    from int_unsigned_chars [OF this] show ?thesis by auto
  qed
  from strip_chars [OF assms(2)] st body show ?thesis
    by (auto simp: non_numeric_char_def)
qed

lemma py_int_non_numeric:
  "c \<in> set x \<Longrightarrow> non_numeric_char c \<Longrightarrow> py_int x = Inl ValueError"
proof -
  assume c: "c \<in> set x" "non_numeric_char c"
  show ?thesis
  proof (cases "py_int x")
    case (Inl e)
    with py_int_error show ?thesis by blast
  next
    case (Inr i)
    from py_int_chars [OF Inr c(1)] c(2) show ?thesis by simp
  qed
qed

subsection \<open>The steps of read_config\<close>

lemma bind_InrE:
  assumes "bind r f = Inr y"
  obtains x where "r = Inr x" and "f x = Inr y"
  using assms by (cases r) (auto simp: bind_def)

lemma bind_InlE:
  assumes "bind r f = Inl e"
  obtains "r = Inl e" | x where "r = Inr x" and "f x = Inl e"
  using assms by (cases r) (auto simp: bind_def)

lemma cp_read_Inr: "cp_read r = Inr cp \<longleftrightarrow> r = Inr cp"
  by (cases r) (auto simp: cp_read_def)

lemma cp_read_Inl: "cp_read r = Inl e \<longleftrightarrow> (\<exists>cls. r = Inl cls \<and> e = ReadError cls)"
  by (cases r) (auto simp: cp_read_def)

lemma get_section_Inr: "get_section cp name = Inr sec \<longleftrightarrow> cp name = Some sec"
  by (auto simp: get_section_def split: option.splits)

lemma get_section_Inl: "get_section cp name = Inl e \<longleftrightarrow> cp name = None \<and> e = KeyError name"
  by (auto simp: get_section_def split: option.splits)

lemma get_key_Inr: "get_key sec name = Inr v \<longleftrightarrow> sec name = Some (Inr v)"
  by (auto simp: get_key_def split: option.splits sum.splits)

lemma get_key_Inl:
  "get_key sec name = Inl e \<longleftrightarrow>
     (sec name = None \<and> e = KeyError name) \<or> (\<exists>cls. sec name = Some (Inl cls) \<and> e = GetError cls)"
  by (auto simp: get_key_def split: option.splits sum.splits)

lemma read_config_Inr_all:
  assumes "read_config r = Inr cfg"
  shows "\<exists>cp auth loc token allowed ids w dw h dh.
           r = Inr cp \<and> cp ''AUTHENTICATION'' = Some auth
           \<and> auth ''token'' = Some (Inr token) \<and> auth ''allowed_ids'' = Some (Inr allowed)
           \<and> ints_of (split_comma allowed) = Inr ids
           \<and> cp ''LOCATIONS'' = Some loc
           \<and> loc ''workplace'' = Some (Inr w) \<and> loc ''direction_workplace'' = Some (Inr dw)
           \<and> loc ''home'' = Some (Inr h) \<and> loc ''direction_home'' = Some (Inr dh)
           \<and> cfg = \<lparr>cfg_token = token, cfg_home = h, cfg_direction_home = split_comma dh,
                    cfg_workplace = w, cfg_direction_workplace = split_comma dw,
                    cfg_ids = ids\<rparr>"
  using assms unfolding read_config_def
  by (elim bind_InrE) (auto simp: cp_read_Inr get_section_Inr get_key_Inr)

lemma read_config_all_Inr:
  assumes "cp ''AUTHENTICATION'' = Some auth"
    and "auth ''token'' = Some (Inr token)" and "auth ''allowed_ids'' = Some (Inr allowed)"
    and "ints_of (split_comma allowed) = Inr ids"
    and "cp ''LOCATIONS'' = Some loc"
    and "loc ''workplace'' = Some (Inr w)" and "loc ''direction_workplace'' = Some (Inr dw)"
    and "loc ''home'' = Some (Inr h)" and "loc ''direction_home'' = Some (Inr dh)"
  shows "read_config (Inr cp)
           = Inr \<lparr>cfg_token = token, cfg_home = h, cfg_direction_home = split_comma dh,
                  cfg_workplace = w, cfg_direction_workplace = split_comma dw,
                  cfg_ids = ids\<rparr>"
  using assms
  by (simp add: read_config_def cp_read_def bind_def get_section_def get_key_def)

lemma auth_key_fails:
  assumes "cp ''AUTHENTICATION'' = Some auth" and "k = ''token'' \<or> k = ''allowed_ids''"
    and "get_key auth k = Inl e"
  shows "(e = KeyError k \<and> missing cp k) \<or> (\<exists>cls. e = GetError cls \<and> get_raises cp cls)"
proof -
  from assms(3) consider "auth k = None" and "e = KeyError k"
    | cls where "auth k = Some (Inl cls)" and "e = GetError cls"
    by (auto simp: get_key_Inl)
  then show ?thesis
  proof cases
    case 1
    with assms(1,2) have "missing cp k" by (auto simp: missing_def)
    with 1 show ?thesis by simp
  next
    case 2
    with assms(1,2) have "get_raises cp cls" by (auto simp: get_raises_def)
    with 2 show ?thesis by blast
  qed
qed

lemma locations_key_fails:
  assumes "cp ''LOCATIONS'' = Some loc"
    and "k = ''workplace'' \<or> k = ''direction_workplace'' \<or> k = ''home'' \<or> k = ''direction_home''"
    and "get_key loc k = Inl e"
  shows "(e = KeyError k \<and> missing cp k) \<or> (\<exists>cls. e = GetError cls \<and> get_raises cp cls)"
proof -
  from assms(3) consider "loc k = None" and "e = KeyError k"
    | cls where "loc k = Some (Inl cls)" and "e = GetError cls"
    by (auto simp: get_key_Inl)
  then show ?thesis
  proof cases
    case 1
    with assms(1,2) have "missing cp k" by (auto simp: missing_def)
    with 1 show ?thesis by simp
  next
    case 2
    with assms(1,2) have "get_raises cp cls" by (auto simp: get_raises_def)
    with 2 show ?thesis by blast
  qed
qed

lemma section_fails:
  assumes "k = ''AUTHENTICATION'' \<or> k = ''LOCATIONS''" and "get_section cp k = Inl e"
  shows "e = KeyError k \<and> missing cp k"
  using assms by (auto simp: get_section_Inl missing_def)

lemma read_config_Inl:
  assumes "read_config r = Inl e"
  shows "(\<exists>cls. r = Inl cls \<and> e = ReadError cls)
     \<or> (\<exists>cp k. r = Inr cp \<and> e = KeyError k \<and> missing cp k)
     \<or> (\<exists>cp cls. r = Inr cp \<and> e = GetError cls \<and> get_raises cp cls)
     \<or> (e = ValueError
         \<and> (\<exists>cp auth allowed. r = Inr cp \<and> cp ''AUTHENTICATION'' = Some auth
              \<and> auth ''allowed_ids'' = Some (Inr allowed)
              \<and> (\<exists>x\<in>set (split_comma allowed). py_int x = Inl ValueError)))"
  using assms unfolding read_config_def
proof (elim bind_InlE)
  assume "cp_read r = Inl e"
  then have "\<exists>cls. r = Inl cls \<and> e = ReadError cls" by (simp add: cp_read_Inl)
  then show ?thesis by blast
next
  fix cp
  assume "cp_read r = Inr cp" and a: "get_section cp ''AUTHENTICATION'' = Inl e"
  then have r: "r = Inr cp" by (simp add: cp_read_Inr)
  from section_fails [of "''AUTHENTICATION''" cp e] a r show ?thesis by blast
next
  fix cp auth
  assume "cp_read r = Inr cp" and "get_section cp ''AUTHENTICATION'' = Inr auth"
    and a: "get_key auth ''token'' = Inl e"
  then have r: "r = Inr cp" and s: "cp ''AUTHENTICATION'' = Some auth"
    by (simp_all add: cp_read_Inr get_section_Inr)
  from auth_key_fails [of cp auth "''token''" e] s a r show ?thesis by blast
next
  fix cp auth token
  assume "cp_read r = Inr cp" and a: "get_section cp ''AUTHENTICATION'' = Inl e"
  then have r: "r = Inr cp" by (simp add: cp_read_Inr)
  from section_fails [of "''AUTHENTICATION''" cp e] a r show ?thesis by blast
next
  fix cp auth token auth'
  assume "cp_read r = Inr cp" and "get_section cp ''AUTHENTICATION'' = Inr auth'"
    and a: "get_key auth' ''allowed_ids'' = Inl e"
  then have r: "r = Inr cp" and s: "cp ''AUTHENTICATION'' = Some auth'"
    by (simp_all add: cp_read_Inr get_section_Inr)
  from auth_key_fails [of cp auth' "''allowed_ids''" e] s a r show ?thesis by blast
next
  fix cp auth token auth' allowed
  assume "cp_read r = Inr cp" and "get_section cp ''AUTHENTICATION'' = Inr auth'"
    and "get_key auth' ''allowed_ids'' = Inr allowed"
    and bad: "ints_of (split_comma allowed) = Inl e"
  then have r: "r = Inr cp" and s: "cp ''AUTHENTICATION'' = Some auth'"
    and k: "auth' ''allowed_ids'' = Some (Inr allowed)"
    by (simp_all add: cp_read_Inr get_section_Inr get_key_Inr)
  from ints_of_Inl [OF bad] have "e = ValueError"
    and "\<exists>x\<in>set (split_comma allowed). py_int x = Inl ValueError"
    by simp_all
  with r s k show ?thesis by blast
next
  fix cp auth token auth' allowed ids
  assume "cp_read r = Inr cp" and a: "get_section cp ''LOCATIONS'' = Inl e"
  then have r: "r = Inr cp" by (simp add: cp_read_Inr)
  from section_fails [of "''LOCATIONS''" cp e] a r show ?thesis by blast
next
  fix cp auth token auth' allowed ids locations
  assume "cp_read r = Inr cp" and "get_section cp ''LOCATIONS'' = Inr locations"
    and a: "get_key locations ''workplace'' = Inl e"
  then have r: "r = Inr cp" and s: "cp ''LOCATIONS'' = Some locations"
    by (simp_all add: cp_read_Inr get_section_Inr)
  from locations_key_fails [of cp locations "''workplace''" e] s a r show ?thesis by blast
next
  fix cp auth token auth' allowed ids locations workplace
  assume "cp_read r = Inr cp" and "get_section cp ''LOCATIONS'' = Inr locations"
    and a: "get_key locations ''direction_workplace'' = Inl e"
  then have r: "r = Inr cp" and s: "cp ''LOCATIONS'' = Some locations"
    by (simp_all add: cp_read_Inr get_section_Inr)
  from locations_key_fails [of cp locations "''direction_workplace''" e] s a r show ?thesis by blast
next
  fix cp auth token auth' allowed ids locations workplace direction_workplace
  assume "cp_read r = Inr cp" and "get_section cp ''LOCATIONS'' = Inr locations"
    and a: "get_key locations ''home'' = Inl e"
  then have r: "r = Inr cp" and s: "cp ''LOCATIONS'' = Some locations"
    by (simp_all add: cp_read_Inr get_section_Inr)
  from locations_key_fails [of cp locations "''home''" e] s a r show ?thesis by blast
next
  fix cp auth token auth' allowed ids locations workplace direction_workplace home
  assume "cp_read r = Inr cp" and "get_section cp ''LOCATIONS'' = Inr locations"
    and a: "get_key locations ''direction_home'' = Inl e"
  then have r: "r = Inr cp" and s: "cp ''LOCATIONS'' = Some locations"
    by (simp_all add: cp_read_Inr get_section_Inr)
  from locations_key_fails [of cp locations "''direction_home''" e] s a r show ?thesis by blast
next
  fix cp auth token auth' allowed ids locations workplace direction_workplace home
    direction_home
  assume "Inr \<lparr>cfg_token = token, cfg_home = home,
            cfg_direction_home = split_comma direction_home,
            cfg_workplace = workplace,
            cfg_direction_workplace = split_comma direction_workplace,
            cfg_ids = ids\<rparr> = (Inl e :: error + config)"
  then show ?thesis by simp
qed

lemma read_config_missing:
  assumes "missing cp k \<or> get_raises cp cls"
  shows "\<exists>e. read_config (Inr cp) = Inl e"
proof (cases "read_config (Inr cp)")
  case (Inl e)
  then show ?thesis by blast
next
  case (Inr cfg)
  from read_config_Inr_all [OF Inr] assms show ?thesis
    by (auto simp: missing_def get_raises_def)
qed

lemma read_config_bad_id:
  assumes "cp ''AUTHENTICATION'' = Some auth" and "auth ''allowed_ids'' = Some (Inr allowed)"
    and "x \<in> set (split_comma allowed)" and "py_int x = Inl ValueError"
  shows "read_config (Inr cp)
           = (case auth ''token'' of
                None \<Rightarrow> Inl (KeyError ''token'')
              | Some (Inl cls) \<Rightarrow> Inl (GetError cls)
              | Some (Inr token) \<Rightarrow> Inl ValueError)"
  using assms ints_of_fails [OF assms(3,4)]
  by (auto simp: read_config_def cp_read_def bind_def get_section_def get_key_def
      split: option.splits sum.splits)

subsection \<open>What the loader returns\<close>

text \<open>
  Against claim C8 as it was stated: a file that gives a key twice in one section makes
  \<open>cp.read\<close> raise \<open>DuplicateOptionError\<close>, and the line
  \<open>token = 50%\<close> makes the lookup of the token raise
  \<open>InterpolationSyntaxError\<close>. The loader passes both on; neither names a section
  or key that is missing, and no allow-list entry is at fault.
\<close>

theorem read_config_other_errors:
  "read_config (Inl ''DuplicateOptionError'') = Inl (ReadError ''DuplicateOptionError'')
   \<and> read_config (Inr ini_file_percent) = Inl (GetError ''InterpolationSyntaxError'')
   \<and> \<not> missing ini_file_percent ''token''"
proof -
  have a: "read_config (Inl ''DuplicateOptionError'')
      = Inl (ReadError ''DuplicateOptionError'')"
    by (simp add: read_config_def cp_read_def bind_def)
  have b: "read_config (Inr ini_file_percent) = Inl (GetError ''InterpolationSyntaxError'')"
    by (simp add: read_config_def cp_read_def bind_def get_section_def get_key_def
        ini_file_percent_def ini_file_def)
  have c: "\<not> missing ini_file_percent ''token''"
    by (simp add: missing_def ini_file_percent_def ini_file_def)
  from a b c show ?thesis by simp
qed

text \<open>
  Claim C8, as amended. For every outcome of reading the file, the loader returns a
  configuration or fails in one of four ways: with the error that \<open>cp.read\<close>
  raised; with \<open>KeyError\<close> naming a section or key that is missing; with the error
  that the parser raised when asked for the value of one of the six keys; or with
  \<open>ValueError\<close> because an entry of the comma-separated allow-list is no integer.
  Whenever a section or key is missing, or a lookup raises, the loader fails. Whenever an
  entry of the allow-list is refused by \<open>int\<close>, as every entry holding a character
  other than a digit, a sign, an underscore or whitespace is, the loader fails: with
  \<open>ValueError\<close> when the token could be read, and with the token's error otherwise,
  since the token is read first.
\<close>

theorem read_config_result:
  "((\<exists>cfg. read_config r = Inr cfg)
    \<or> (\<exists>cls. r = Inl cls \<and> read_config r = Inl (ReadError cls))
    \<or> (\<exists>cp k. r = Inr cp \<and> read_config r = Inl (KeyError k) \<and> missing cp k)
    \<or> (\<exists>cp cls. r = Inr cp \<and> read_config r = Inl (GetError cls) \<and> get_raises cp cls)
    \<or> (read_config r = Inl ValueError
        \<and> (\<exists>cp auth allowed. r = Inr cp \<and> cp ''AUTHENTICATION'' = Some auth
             \<and> auth ''allowed_ids'' = Some (Inr allowed)
             \<and> (\<exists>x\<in>set (split_comma allowed). py_int x = Inl ValueError))))
   \<and> (missing cp k \<or> get_raises cp cls \<longrightarrow> (\<exists>e. read_config (Inr cp) = Inl e))
   \<and> (cp ''AUTHENTICATION'' = Some auth \<and> auth ''allowed_ids'' = Some (Inr allowed)
        \<and> x \<in> set (split_comma allowed)
        \<and> (py_int x = Inl ValueError \<or> (\<exists>c\<in>set x. non_numeric_char c))
      \<longrightarrow> read_config (Inr cp)
            = (case auth ''token'' of
                 None \<Rightarrow> Inl (KeyError ''token'')
               | Some (Inl cls) \<Rightarrow> Inl (GetError cls)
               | Some (Inr token) \<Rightarrow> Inl ValueError))"
proof -
  have cases: "(\<exists>cfg. read_config r = Inr cfg)
    \<or> (\<exists>cls. r = Inl cls \<and> read_config r = Inl (ReadError cls))
    \<or> (\<exists>cp k. r = Inr cp \<and> read_config r = Inl (KeyError k) \<and> missing cp k)
    \<or> (\<exists>cp cls. r = Inr cp \<and> read_config r = Inl (GetError cls) \<and> get_raises cp cls)
    \<or> (read_config r = Inl ValueError
        \<and> (\<exists>cp auth allowed. r = Inr cp \<and> cp ''AUTHENTICATION'' = Some auth
             \<and> auth ''allowed_ids'' = Some (Inr allowed)
             \<and> (\<exists>x\<in>set (split_comma allowed). py_int x = Inl ValueError)))"
  proof (cases "read_config r")
    case (Inr cfg)
    then show ?thesis by blast
  next
    case (Inl e)
    from read_config_Inl [OF Inl] show ?thesis by (simp add: Inl)
  qed
  have fails: "missing cp k \<or> get_raises cp cls \<longrightarrow> (\<exists>e. read_config (Inr cp) = Inl e)"
    using read_config_missing [of cp k cls] by blast
  have bad: "cp ''AUTHENTICATION'' = Some auth \<and> auth ''allowed_ids'' = Some (Inr allowed)
        \<and> x \<in> set (split_comma allowed)
        \<and> (py_int x = Inl ValueError \<or> (\<exists>c\<in>set x. non_numeric_char c))
      \<longrightarrow> read_config (Inr cp)
            = (case auth ''token'' of
                 None \<Rightarrow> Inl (KeyError ''token'')
               | Some (Inl cls) \<Rightarrow> Inl (GetError cls)
               | Some (Inr token) \<Rightarrow> Inl ValueError)"
  proof
    assume a: "cp ''AUTHENTICATION'' = Some auth \<and> auth ''allowed_ids'' = Some (Inr allowed)
        \<and> x \<in> set (split_comma allowed)
        \<and> (py_int x = Inl ValueError \<or> (\<exists>c\<in>set x. non_numeric_char c))"
    then have "py_int x = Inl ValueError"
      using py_int_non_numeric by blast
    with a show "read_config (Inr cp)
            = (case auth ''token'' of
                 None \<Rightarrow> Inl (KeyError ''token'')
               | Some (Inl cls) \<Rightarrow> Inl (GetError cls)
               | Some (Inr token) \<Rightarrow> Inl ValueError)"
      using read_config_bad_id [of cp auth allowed x] by blast
  qed
  show ?thesis by (rule conjI [OF cases conjI [OF fails bad]])
qed

theorem read_config_result_witness:
  "read_config (Inr (ini_file ''111, 222'' ''Schkeuditz''))
     = Inr \<lparr>cfg_token = ''secret'', cfg_home = ''Markt'', cfg_direction_home = [''Schkeuditz''],
            cfg_workplace = ''Hauptbahnhof'', cfg_direction_workplace = [''Dresden''],
            cfg_ids = [111, 222]\<rparr>
   \<and> missing ((ini_file ''111'' ''Schkeuditz'')(''LOCATIONS'' := None)) ''LOCATIONS''
   \<and> read_config (Inr ((ini_file ''111'' ''Schkeuditz'')(''LOCATIONS'' := None)))
       = Inl (KeyError ''LOCATIONS'')
   \<and> ''abc'' \<in> set (split_comma ''111,abc'')
   \<and> non_numeric_char CHR ''a''
   \<and> read_config (Inr (ini_file ''111,abc'' ''Schkeuditz'')) = Inl ValueError"
proof -
  let ?auth = "((\<lambda>_. None)(''token'' \<mapsto> Inr ''secret'', ''allowed_ids'' \<mapsto> Inr ''111,abc''))
      :: section_proxy"
  let ?nosec = "(ini_file ''111'' ''Schkeuditz'')(''LOCATIONS'' := None)"
  have good: "read_config (Inr (ini_file ''111, 222'' ''Schkeuditz''))
     = Inr \<lparr>cfg_token = ''secret'', cfg_home = ''Markt'', cfg_direction_home = [''Schkeuditz''],
            cfg_workplace = ''Hauptbahnhof'', cfg_direction_workplace = [''Dresden''],
            cfg_ids = [111, 222]\<rparr>"
    by code_simp
  have nosec: "read_config (Inr ?nosec) = Inl (KeyError ''LOCATIONS'')"
    by code_simp
  have miss: "missing ?nosec ''LOCATIONS''"
    by (simp add: missing_def)
  have "missing ?nosec ''LOCATIONS'' \<or> get_raises ?nosec ''none''
      \<longrightarrow> (\<exists>e. read_config (Inr ?nosec) = Inl e)"
    by (rule read_config_result [where cp = ?nosec and k = "''LOCATIONS''"
          and cls = "''none''", THEN conjunct2, THEN conjunct1])
  with miss have fails: "\<exists>e. read_config (Inr ?nosec) = Inl e"
    by (simp only: simp_thms)
  have sec: "ini_file ''111,abc'' ''Schkeuditz'' ''AUTHENTICATION'' = Some ?auth"
    by (simp add: ini_file_def)
  have key: "?auth ''allowed_ids'' = Some (Inr ''111,abc'')"
    by simp
  have tok: "?auth ''token'' = Some (Inr ''secret'')"
    by simp
  have entry: "''abc'' \<in> set (split_comma ''111,abc'')"
    by simp
  have letter: "non_numeric_char CHR ''a''"
    by (simp add: non_numeric_char_def is_digit_def is_space_def)
  have hyp: "ini_file ''111,abc'' ''Schkeuditz'' ''AUTHENTICATION'' = Some ?auth
        \<and> ?auth ''allowed_ids'' = Some (Inr ''111,abc'')
        \<and> ''abc'' \<in> set (split_comma ''111,abc'')
        \<and> (py_int ''abc'' = Inl ValueError \<or> (\<exists>c\<in>set ''abc''. non_numeric_char c))"
    using sec key entry letter by auto
  have "ini_file ''111,abc'' ''Schkeuditz'' ''AUTHENTICATION'' = Some ?auth
        \<and> ?auth ''allowed_ids'' = Some (Inr ''111,abc'')
        \<and> ''abc'' \<in> set (split_comma ''111,abc'')
        \<and> (py_int ''abc'' = Inl ValueError \<or> (\<exists>c\<in>set ''abc''. non_numeric_char c))
      \<longrightarrow> read_config (Inr (ini_file ''111,abc'' ''Schkeuditz''))
            = (case ?auth ''token'' of
                 None \<Rightarrow> Inl (KeyError ''token'')
               | Some (Inl cls) \<Rightarrow> Inl (GetError cls)
               | Some (Inr token) \<Rightarrow> Inl ValueError)"
    by (rule read_config_result [where cp = "ini_file ''111,abc'' ''Schkeuditz''"
          and auth = ?auth and allowed = "''111,abc''" and x = "''abc''",
          THEN conjunct2, THEN conjunct2])
  from this hyp have "read_config (Inr (ini_file ''111,abc'' ''Schkeuditz''))
            = (case ?auth ''token'' of
                 None \<Rightarrow> Inl (KeyError ''token'')
               | Some (Inl cls) \<Rightarrow> Inl (GetError cls)
               | Some (Inr token) \<Rightarrow> Inl ValueError)"
    by (rule mp)
  with tok have "read_config (Inr (ini_file ''111,abc'' ''Schkeuditz'')) = Inl ValueError"
    by simp
  with good nosec miss entry letter show ?thesis by simp
qed

subsection \<open>Splitting at commas and joining again\<close>

lemma split_comma_nonempty: "split_comma s \<noteq> []"
  by (induction s) (auto split: list.splits)

lemma join_comma_Cons: "join_comma ((c # w) # ws) = c # join_comma (w # ws)"
  by (cases ws) simp_all

lemma join_comma_Nil_Cons: "ws \<noteq> [] \<Longrightarrow> join_comma ([] # ws) = CHR '','' # join_comma ws"
  by (cases ws) simp_all

lemma join_split_comma: "join_comma (split_comma s) = s"
proof (induction s)
  case Nil
  then show ?case by simp
next
  case (Cons c cs)
  show ?case
  proof (cases "c = CHR '',''")
    case True
    with Cons split_comma_nonempty [of cs] show ?thesis
      by (simp add: join_comma_Nil_Cons)
  next
    case False
    from split_comma_nonempty [of cs] obtain w ws where sp: "split_comma cs = w # ws"
      by (cases "split_comma cs") auto
    with Cons False show ?thesis
      by (simp add: join_comma_Cons)
  qed
qed

lemma split_comma_no_comma: "CHR '','' \<notin> set x \<Longrightarrow> split_comma x = [x]"
  by (induction x) auto

lemma split_comma_append:
  "CHR '','' \<notin> set x \<Longrightarrow> split_comma (x @ CHR '','' # r) = x # split_comma r"
  by (induction x) auto

lemma split_join_comma:
  "xs \<noteq> [] \<Longrightarrow> \<forall>x\<in>set xs. CHR '','' \<notin> set x \<Longrightarrow> split_comma (join_comma xs) = xs"
proof (induction xs rule: join_comma.induct)
  case 1
  then show ?case by simp
next
  case (2 x)
  then show ?case by (simp add: split_comma_no_comma)
next
  case (3 x y ys)
  then show ?case by (simp add: split_comma_append)
qed

subsection \<open>Integers written out and read back\<close>

lemma digit_of_digit_char: "k < 10 \<Longrightarrow> digit_of (digit_char k) = k"
proof -
  assume "k < 10"
  then have "k = 0 \<or> k = 1 \<or> k = 2 \<or> k = 3 \<or> k = 4 \<or> k = 5 \<or> k = 6 \<or> k = 7 \<or> k = 8 \<or> k = 9"
    by arith
  then show ?thesis
    by (auto simp: digit_char_def digit_of_def)
qed

lemma digits_nonempty: "digits n \<noteq> []"
  by (subst digits.simps) simp

lemma underscore_no_digit: "is_digit c \<Longrightarrow> c \<noteq> CHR ''_''"
  by (auto simp: is_digit_def)

lemma int_digits_foldl:
  "\<forall>c\<in>set cs. is_digit c \<Longrightarrow>
     int_digits acc cs = Some (foldl (\<lambda>a c. 10 * a + digit_of c) acc cs)"
proof (induction acc cs rule: int_digits.induct)
  case (1 acc)
  then show ?case by simp
next
  case (2 acc c)
  then show ?case by simp
next
  case (3 acc c c' cs)
  then have "c \<noteq> CHR ''_''" and "is_digit c"
    by (auto simp: underscore_no_digit)
  with 3 show ?case by simp
qed

lemma int_unsigned_foldl:
  "ds \<noteq> [] \<Longrightarrow> \<forall>c\<in>set ds. is_digit c \<Longrightarrow>
     int_unsigned ds = Some (foldl (\<lambda>a c. 10 * a + digit_of c) 0 ds)"
  by (cases ds) (simp_all add: int_unsigned_def int_digits_foldl)

lemma foldl_digits: "foldl (\<lambda>a c. 10 * a + digit_of c) 0 (digits n) = n"
proof (induction n rule: digits.induct)
  case (1 n)
  show ?case
  proof (cases "n < 10")
    case True
    then show ?thesis
      by (simp add: digits.simps [of n] digit_of_digit_char)
  next
    case False
    with "1.IH" show ?thesis
      by (simp add: digits.simps [of n] digit_of_digit_char)
  qed
qed

lemma int_unsigned_digits: "int_unsigned (digits n) = Some n"
  using int_unsigned_foldl [OF digits_nonempty, of n] digits_all_digit
  by (simp add: foldl_digits)

lemma digit_no_space: "is_digit c \<Longrightarrow> \<not> is_space c"
  by (auto simp: is_digit_def is_space_def Let_def)

lemma strip_id:
  "s \<noteq> [] \<Longrightarrow> \<not> is_space (hd s) \<Longrightarrow> \<not> is_space (last s) \<Longrightarrow> strip s = s"
proof -
  assume ne: "s \<noteq> []" and h: "\<not> is_space (hd s)" and l: "\<not> is_space (last s)"
  from ne h have front: "dropWhile is_space s = s"
    by (cases s) auto
  from ne l have "dropWhile is_space (rev s) = rev s"
    by (cases "rev s") (auto simp: last_rev [symmetric] hd_rev)
  with front show ?thesis
    by (simp add: strip_def)
qed

lemma last_digits_digit: "is_digit (last (digits n))"
  using digits_all_digit [of "last (digits n)" n] digits_nonempty [of n]
  by simp

lemma hd_digits_digit: "is_digit (hd (digits n))"
  using digits_all_digit [of "hd (digits n)" n] digits_nonempty [of n]
  by simp

lemma py_int_str_int: "py_int (str_int i) = Inr i"
proof (cases "i < 0")
  case True
  let ?ds = "digits (nat (- i))"
  have "strip (CHR ''-'' # ?ds) = CHR ''-'' # ?ds"
    using last_digits_digit [of "nat (- i)"] digits_nonempty [of "nat (- i)"]
    by (intro strip_id) (auto simp: is_space_def dest: digit_no_space)
  with True show ?thesis
    by (simp add: py_int_def str_int_def int_unsigned_digits)
next
  case False
  let ?ds = "digits (nat i)"
  obtain c cs where ds: "?ds = c # cs"
    using digits_nonempty [of "nat i"] by (cases ?ds) auto
  with hd_digits_digit [of "nat i"] have c: "is_digit c" by simp
  then have sign: "c \<noteq> CHR ''-''" "c \<noteq> CHR ''+''"
    by (auto simp: is_digit_def)
  have "strip ?ds = ?ds"
    using last_digits_digit [of "nat i"] hd_digits_digit [of "nat i"] digits_nonempty [of "nat i"]
    by (intro strip_id) (auto dest: digit_no_space)
  with ds have st: "strip (str_int i) = c # cs"
    using False by (simp add: str_int_def)
  from int_unsigned_digits [of "nat i"] ds have "int_unsigned (c # cs) = Some (nat i)"
    by simp
  with st sign False show ?thesis
    by (simp add: py_int_def)
qed

lemma ints_of_str_int: "ints_of (map str_int ns) = Inr ns"
  by (induction ns) (simp_all add: py_int_str_int)

lemma str_int_no_comma: "CHR '','' \<notin> set (str_int i)"
proof
  assume "CHR '','' \<in> set (str_int i)"
  then have "CHR '','' \<in> set (digits (nat (- i))) \<or> CHR '','' \<in> set (digits (nat i))"
    by (auto simp: str_int_def split: if_splits)
  then have "is_digit CHR '',''"
    using digits_all_digit by blast
  then show False by (simp add: is_digit_def)
qed


subsection \<open>The destination lists\<close>

text \<open>
  Against claim C7 as it was stated: for the line
  \<open>direction_home = Schkeuditz, Leipzig\<close> the parser returns the value
  "Schkeuditz, Leipzig", and the loader makes of it the two entries "Schkeuditz" and
  " Leipzig"; the second keeps its leading space, which trimming would remove.
\<close>

theorem destinations_not_trimmed:
  "read_config (Inr (ini_file ''111'' ''Schkeuditz, Leipzig''))
     = Inr \<lparr>cfg_token = ''secret'', cfg_home = ''Markt'',
            cfg_direction_home = [''Schkeuditz'', '' Leipzig''],
            cfg_workplace = ''Hauptbahnhof'', cfg_direction_workplace = [''Dresden''],
            cfg_ids = [111]\<rparr>
   \<and> hd '' Leipzig'' = CHR '' ''
   \<and> '' Leipzig'' \<noteq> ''Leipzig''"
proof -
  have a: "read_config (Inr (ini_file ''111'' ''Schkeuditz, Leipzig''))
     = Inr \<lparr>cfg_token = ''secret'', cfg_home = ''Markt'',
            cfg_direction_home = [''Schkeuditz'', '' Leipzig''],
            cfg_workplace = ''Hauptbahnhof'', cfg_direction_workplace = [''Dresden''],
            cfg_ids = [111]\<rparr>"
    by code_simp
  then show ?thesis by simp
qed

lemma read_joined_values:
  assumes "cp ''AUTHENTICATION'' = Some auth"
    and "auth ''token'' = Some (Inr (cfg_token c))"
    and "auth ''allowed_ids'' = Some (Inr (join_comma (map str_int (cfg_ids c))))"
    and "cp ''LOCATIONS'' = Some loc"
    and "loc ''workplace'' = Some (Inr (cfg_workplace c))"
    and "loc ''direction_workplace'' = Some (Inr (join_comma (cfg_direction_workplace c)))"
    and "loc ''home'' = Some (Inr (cfg_home c))"
    and "loc ''direction_home'' = Some (Inr (join_comma (cfg_direction_home c)))"
    and "cfg_ids c \<noteq> []" and "cfg_direction_home c \<noteq> []"
    and "cfg_direction_workplace c \<noteq> []"
    and "\<forall>x\<in>set (cfg_direction_home c) \<union> set (cfg_direction_workplace c). CHR '','' \<notin> set x"
  shows "read_config (Inr cp) = Inr c"
proof -
  have ids: "ints_of (split_comma (join_comma (map str_int (cfg_ids c)))) = Inr (cfg_ids c)"
    using assms(9) by (simp add: split_join_comma str_int_no_comma ints_of_str_int)
  have dh: "split_comma (join_comma (cfg_direction_home c)) = cfg_direction_home c"
    using assms(10,12) by (simp add: split_join_comma)
  have dw: "split_comma (join_comma (cfg_direction_workplace c)) = cfg_direction_workplace c"
    using assms(11,12) by (simp add: split_join_comma)
  from read_config_all_Inr [OF assms(1,2,3) ids assms(4,5,6,7,8)]
  show ?thesis by (simp add: dh dw)
qed

text \<open>
  Claim C7, as amended. For every configuration that loads, each destination list is the
  list of the entries between the commas of the value that the parser returns for the
  key (the configured text, whose outer whitespace the parser has removed), in order and
  with no entry trimmed, so that joining the entries with commas gives that value back.
  Whenever the parser returns for every key the known value, the lists joined with
  commas, loading gives those known values back, provided the lists are non-empty and no
  destination holds a comma.
\<close>

theorem read_config_destinations:
  "(read_config r = Inr cfg \<longrightarrow>
      (\<exists>cp loc dh dw. r = Inr cp \<and> cp ''LOCATIONS'' = Some loc
         \<and> loc ''direction_home'' = Some (Inr dh)
         \<and> loc ''direction_workplace'' = Some (Inr dw)
         \<and> cfg_direction_home cfg = split_comma dh
         \<and> cfg_direction_workplace cfg = split_comma dw
         \<and> join_comma (cfg_direction_home cfg) = dh
         \<and> join_comma (cfg_direction_workplace cfg) = dw))
   \<and> (cp ''AUTHENTICATION'' = Some auth
        \<and> auth ''token'' = Some (Inr (cfg_token c))
        \<and> auth ''allowed_ids'' = Some (Inr (join_comma (map str_int (cfg_ids c))))
        \<and> cp ''LOCATIONS'' = Some loc
        \<and> loc ''workplace'' = Some (Inr (cfg_workplace c))
        \<and> loc ''direction_workplace'' = Some (Inr (join_comma (cfg_direction_workplace c)))
        \<and> loc ''home'' = Some (Inr (cfg_home c))
        \<and> loc ''direction_home'' = Some (Inr (join_comma (cfg_direction_home c)))
        \<and> cfg_ids c \<noteq> [] \<and> cfg_direction_home c \<noteq> [] \<and> cfg_direction_workplace c \<noteq> []
        \<and> (\<forall>x\<in>set (cfg_direction_home c) \<union> set (cfg_direction_workplace c).
              CHR '','' \<notin> set x)
      \<longrightarrow> read_config (Inr cp) = Inr c)"
proof -
  have entries: "read_config r = Inr cfg \<longrightarrow>
      (\<exists>cp loc dh dw. r = Inr cp \<and> cp ''LOCATIONS'' = Some loc
         \<and> loc ''direction_home'' = Some (Inr dh)
         \<and> loc ''direction_workplace'' = Some (Inr dw)
         \<and> cfg_direction_home cfg = split_comma dh
         \<and> cfg_direction_workplace cfg = split_comma dw
         \<and> join_comma (cfg_direction_home cfg) = dh
         \<and> join_comma (cfg_direction_workplace cfg) = dw)"
  proof
    assume "read_config r = Inr cfg"
    from read_config_Inr_all [OF this] obtain cp loc dh dw where
      "r = Inr cp" "cp ''LOCATIONS'' = Some loc" "loc ''direction_home'' = Some (Inr dh)"
      "loc ''direction_workplace'' = Some (Inr dw)"
      "cfg_direction_home cfg = split_comma dh"
      "cfg_direction_workplace cfg = split_comma dw"
      by auto
    moreover from this have "join_comma (cfg_direction_home cfg) = dh"
      and "join_comma (cfg_direction_workplace cfg) = dw"
      by (simp_all add: join_split_comma)
    ultimately show "\<exists>cp loc dh dw. r = Inr cp \<and> cp ''LOCATIONS'' = Some loc
         \<and> loc ''direction_home'' = Some (Inr dh)
         \<and> loc ''direction_workplace'' = Some (Inr dw)
         \<and> cfg_direction_home cfg = split_comma dh
         \<and> cfg_direction_workplace cfg = split_comma dw
         \<and> join_comma (cfg_direction_home cfg) = dh
         \<and> join_comma (cfg_direction_workplace cfg) = dw"
      by blast
  qed
  have known: "cp ''AUTHENTICATION'' = Some auth
        \<and> auth ''token'' = Some (Inr (cfg_token c))
        \<and> auth ''allowed_ids'' = Some (Inr (join_comma (map str_int (cfg_ids c))))
        \<and> cp ''LOCATIONS'' = Some loc
        \<and> loc ''workplace'' = Some (Inr (cfg_workplace c))
        \<and> loc ''direction_workplace'' = Some (Inr (join_comma (cfg_direction_workplace c)))
        \<and> loc ''home'' = Some (Inr (cfg_home c))
        \<and> loc ''direction_home'' = Some (Inr (join_comma (cfg_direction_home c)))
        \<and> cfg_ids c \<noteq> [] \<and> cfg_direction_home c \<noteq> [] \<and> cfg_direction_workplace c \<noteq> []
        \<and> (\<forall>x\<in>set (cfg_direction_home c) \<union> set (cfg_direction_workplace c).
              CHR '','' \<notin> set x)
      \<longrightarrow> read_config (Inr cp) = Inr c"
    using read_joined_values [of cp auth c loc] by blast
  show ?thesis by (rule conjI [OF entries known])
qed

theorem read_config_destinations_witness:
  "read_config (Inr (ini_file ''111, -5'' ''Schkeuditz, Leipzig''))
     = Inr \<lparr>cfg_token = ''secret'', cfg_home = ''Markt'',
            cfg_direction_home = [''Schkeuditz'', '' Leipzig''],
            cfg_workplace = ''Hauptbahnhof'', cfg_direction_workplace = [''Dresden''],
            cfg_ids = [111, -5]\<rparr>
   \<and> join_comma [''Schkeuditz'', '' Leipzig''] = ''Schkeuditz, Leipzig''
   \<and> join_comma (map str_int [111, -5]) = ''111,-5''
   \<and> read_config (Inr (ini_file ''111,-5'' ''Schkeuditz,Leipzig''))
       = Inr \<lparr>cfg_token = ''secret'', cfg_home = ''Markt'',
              cfg_direction_home = [''Schkeuditz'', ''Leipzig''],
              cfg_workplace = ''Hauptbahnhof'', cfg_direction_workplace = [''Dresden''],
              cfg_ids = [111, -5]\<rparr>"
proof -
  let ?c = "\<lparr>cfg_token = ''secret'', cfg_home = ''Markt'',
           cfg_direction_home = [''Schkeuditz'', ''Leipzig''],
           cfg_workplace = ''Hauptbahnhof'', cfg_direction_workplace = [''Dresden''],
           cfg_ids = [111, -5]\<rparr>"
  let ?cp = "ini_file ''111,-5'' ''Schkeuditz,Leipzig''"
  let ?auth = "((\<lambda>_. None)(''token'' \<mapsto> Inr ''secret'', ''allowed_ids'' \<mapsto> Inr ''111,-5''))
      :: section_proxy"
  let ?loc = "((\<lambda>_. None)(''workplace'' \<mapsto> Inr ''Hauptbahnhof'',
                      ''direction_workplace'' \<mapsto> Inr ''Dresden'',
                      ''home'' \<mapsto> Inr ''Markt'',
                      ''direction_home'' \<mapsto> Inr ''Schkeuditz,Leipzig''))
      :: section_proxy"
  have a: "read_config (Inr (ini_file ''111, -5'' ''Schkeuditz, Leipzig''))
     = Inr \<lparr>cfg_token = ''secret'', cfg_home = ''Markt'',
            cfg_direction_home = [''Schkeuditz'', '' Leipzig''],
            cfg_workplace = ''Hauptbahnhof'', cfg_direction_workplace = [''Dresden''],
            cfg_ids = [111, -5]\<rparr>"
    by code_simp
  have b: "join_comma [''Schkeuditz'', '' Leipzig''] = ''Schkeuditz, Leipzig''"
    by simp
  have ids: "join_comma (map str_int [111, -5]) = ''111,-5''"
    by code_simp
  have pre: "?cp ''AUTHENTICATION'' = Some ?auth
        \<and> ?auth ''token'' = Some (Inr (cfg_token ?c))
        \<and> ?auth ''allowed_ids'' = Some (Inr (join_comma (map str_int (cfg_ids ?c))))
        \<and> ?cp ''LOCATIONS'' = Some ?loc
        \<and> ?loc ''workplace'' = Some (Inr (cfg_workplace ?c))
        \<and> ?loc ''direction_workplace'' = Some (Inr (join_comma (cfg_direction_workplace ?c)))
        \<and> ?loc ''home'' = Some (Inr (cfg_home ?c))
        \<and> ?loc ''direction_home'' = Some (Inr (join_comma (cfg_direction_home ?c)))
        \<and> cfg_ids ?c \<noteq> [] \<and> cfg_direction_home ?c \<noteq> [] \<and> cfg_direction_workplace ?c \<noteq> []
        \<and> (\<forall>x\<in>set (cfg_direction_home ?c) \<union> set (cfg_direction_workplace ?c).
              CHR '','' \<notin> set x)"
    using ids by (simp add: ini_file_def)
  have "?cp ''AUTHENTICATION'' = Some ?auth
        \<and> ?auth ''token'' = Some (Inr (cfg_token ?c))
        \<and> ?auth ''allowed_ids'' = Some (Inr (join_comma (map str_int (cfg_ids ?c))))
        \<and> ?cp ''LOCATIONS'' = Some ?loc
        \<and> ?loc ''workplace'' = Some (Inr (cfg_workplace ?c))
        \<and> ?loc ''direction_workplace'' = Some (Inr (join_comma (cfg_direction_workplace ?c)))
        \<and> ?loc ''home'' = Some (Inr (cfg_home ?c))
        \<and> ?loc ''direction_home'' = Some (Inr (join_comma (cfg_direction_home ?c)))
        \<and> cfg_ids ?c \<noteq> [] \<and> cfg_direction_home ?c \<noteq> [] \<and> cfg_direction_workplace ?c \<noteq> []
        \<and> (\<forall>x\<in>set (cfg_direction_home ?c) \<union> set (cfg_direction_workplace ?c).
              CHR '','' \<notin> set x)
      \<longrightarrow> read_config (Inr ?cp) = Inr ?c"
    by (rule read_config_destinations [where cp = ?cp and auth = ?auth and loc = ?loc
          and c = ?c, THEN conjunct2])
  from this pre have "read_config (Inr ?cp) = Inr ?c"
    by (rule mp)
  with a b ids show ?thesis by simp
qed

end
